theory Spec2Isabelle
  imports Complex_Main
begin

section \<open>The go2rtc panel: data\<close>

text \<open>
  The panel of \<^verbatim>\<open>src/Go2RTCPanel.tsx\<close> is a React component. Its state cells
  (\<^verbatim>\<open>useState\<close>), its mutable references (\<^verbatim>\<open>useRef\<close>) and the platform objects it
  drives (peer connections, one-shot timers, the HTTP requests it issued, the video
  element) are the fields of one record; every callback of the component is a function
  from that record to that record. A state cell holds the value most recently handed to
  its setter.
\<close>

record Config =
  url :: string
  stream :: string

text \<open>\<^verbatim>\<open>Partial<Config>\<close>: a field is absent or a string.\<close>

record PartialConfig =
  p_url :: "string option"
  p_stream :: "string option"

definition DEFAULT_CONFIG :: Config where
  "DEFAULT_CONFIG = \<lparr>url = ''http://localhost:1984'', stream = ''cam1''\<rparr>"

text \<open>
  \<^verbatim>\<open>{ ...DEFAULT_CONFIG, ...partialConfig }\<close>: the fields present in the persisted
  object override the defaults; spreading \<^verbatim>\<open>undefined\<close> (no persisted state) adds
  nothing.
\<close>

definition spread :: "Config \<Rightarrow> PartialConfig option \<Rightarrow> Config" where
  "spread d p =
     (case p of
        None \<Rightarrow> d
      | Some q \<Rightarrow>
          \<lparr>url = (case p_url q of None \<Rightarrow> url d | Some u \<Rightarrow> u),
           stream = (case p_stream q of None \<Rightarrow> stream d | Some n \<Rightarrow> n)\<rparr>)"

text \<open>A thrown value: an \<^verbatim>\<open>Error\<close> with its message, or any other value with
  its \<^verbatim>\<open>String(err)\<close> rendering.\<close>

datatype js_exn = JsError string | JsValue string

fun message_of :: "js_exn \<Rightarrow> string" where
  "message_of (JsError m) = m"
| "message_of (JsValue v) = v"

record response =
  ok :: bool
  statusText :: string

record request =
  r_url :: string
  r_method :: string
  r_body :: "string option"

text \<open>An \<^verbatim>\<open>RTCPeerConnection\<close>, as far as the panel drives it: whether
  \<^verbatim>\<open>close()\<close> was called, the transceivers added, and the arguments handed to
  \<^verbatim>\<open>setLocalDescription\<close> and \<^verbatim>\<open>setRemoteDescription\<close>.\<close>

record peer =
  pc_closed :: bool
  transceivers :: "(string \<times> string) list"
  setLocal_arg :: "string option"
  setRemote_arg :: "string option"

text \<open>The suspension points of one call of \<^verbatim>\<open>setupWebRTC\<close>: each \<^verbatim>\<open>await\<close>
  of the function is a phase in which the call waits for the platform.\<close>

datatype phase = AwaitOffer | AwaitLocal | AwaitFetch | AwaitText | AwaitRemote | Finished

text \<open>A suspended call of \<^verbatim>\<open>setupWebRTC\<close>: the connection \<^verbatim>\<open>pc\<close> and the
  configuration its closure captured, and where it waits.\<close>

record attempt =
  a_pc :: nat
  a_url :: string
  a_stream :: string
  a_phase :: phase

text \<open>A JavaScript number is an IEEE 754 binary64 value. A finite one is the real
  it denotes; the subtraction below produces no NaN, since its operands are finite.\<close>

datatype number = Finite real | PosInfinity | NegInfinity

text \<open>The \<^verbatim>\<open><video>\<close> element. Its current time and the ends of its buffered
  ranges are finite numbers.\<close>

record video =
  srcObject :: "nat option"
  paused :: bool
  readyState :: nat
  buffered :: "(real \<times> real) list"
  currentTime :: real

record panel =
  config :: Config
  mounted :: bool
  effectDeps :: "(string \<times> string \<times> nat) option"
  videoRef :: "video option"
  pcRef :: "nat option"
  reconnectTimeoutRef :: "nat option"
  error :: "string option"
  status :: string
  reconnectCount :: nat
  reconnectCountRef :: nat
  latency :: number
  now :: nat
  timerSeq :: nat
  timers :: "(nat \<times> nat) list"
  pcs :: "peer list"
  attempts :: "attempt list"
  requests :: "request list"

text \<open>
  \<^item> \<open>effectDeps\<close> is React's record of the dependency values
    \<^verbatim>\<open>[config.url, config.stream, reconnectCount]\<close> the WebRTC effect last ran with.
  \<^item> \<open>now\<close> is the clock in milliseconds; \<open>timers\<close> are the pending
    \<^verbatim>\<open>setTimeout\<close> timers, each with its handle and the time before which the
    platform does not run it; \<open>timerSeq\<close> is the next fresh handle. The reference is
    declared \<^verbatim>\<open>NodeJS.Timeout | null\<close>, so a handle is always truthy.
  \<^item> \<open>pcs\<close> are the connections constructed so far, a handle being an index;
    \<open>attempts\<close> are the calls of \<^verbatim>\<open>setupWebRTC\<close> that reached their first
    \<^verbatim>\<open>await\<close>; \<open>requests\<close> is the log of \<^verbatim>\<open>fetch\<close> calls.
\<close>

section \<open>The reconnect scheduler\<close>

text \<open>
  \<^verbatim>\<open>
  const triggerReconnect = () => {
    if (reconnectTimeoutRef.current) return;
    setStatus("Retrying in 2s...");
    reconnectTimeoutRef.current = setTimeout(() => { ... }, 2000);
  };
  \<close>
\<close>

definition triggerReconnect :: "panel \<Rightarrow> panel" where
  "triggerReconnect s =
     (if reconnectTimeoutRef s \<noteq> None then s
      else s\<lparr>status := ''Retrying in 2s...'',
             reconnectTimeoutRef := Some (timerSeq s),
             timers := timers s @ [(timerSeq s, now s + 2000)],
             timerSeq := Suc (timerSeq s)\<rparr>)"

text \<open>The body of the timer:
  \<^verbatim>\<open>reconnectCountRef.current += 1; setReconnectCount((c) => c + 1);
  reconnectTimeoutRef.current = null;\<close>\<close>

definition timer_callback :: "panel \<Rightarrow> panel" where
  "timer_callback s =
     s\<lparr>reconnectCountRef := reconnectCountRef s + 1,
       reconnectCount := reconnectCount s + 1,
       reconnectTimeoutRef := None\<rparr>"

text \<open>The platform runs a pending timer once, and not before its time.\<close>

definition fire_timer :: "nat \<Rightarrow> panel \<Rightarrow> panel" where
  "fire_timer t s =
     (case map_of (timers s) t of
        None \<Rightarrow> s
      | Some d \<Rightarrow>
          if now s < d then s
          else timer_callback (s\<lparr>timers := filter (\<lambda>p. fst p \<noteq> t) (timers s)\<rparr>))"

definition clearTimeout :: "nat \<Rightarrow> panel \<Rightarrow> panel" where
  "clearTimeout t s = s\<lparr>timers := filter (\<lambda>p. fst p \<noteq> t) (timers s)\<rparr>"

section \<open>The connection controller\<close>

definition close_pc :: "nat \<Rightarrow> panel \<Rightarrow> panel" where
  "close_pc k s = s\<lparr>pcs := (pcs s)[k := (pcs s ! k)\<lparr>pc_closed := True\<rparr>]\<rparr>"

text \<open>\<^verbatim>\<open>if (pcRef.current) { pcRef.current.close(); pcRef.current = null; }\<close>\<close>

definition drop_session :: "panel \<Rightarrow> panel" where
  "drop_session s =
     (case pcRef s of
        None \<Rightarrow> s
      | Some k \<Rightarrow> (close_pc k s)\<lparr>pcRef := None\<rparr>)"

text \<open>The cleanup function the WebRTC effect returns.\<close>

definition cleanup :: "panel \<Rightarrow> panel" where
  "cleanup s =
     drop_session
       (case reconnectTimeoutRef s of
          None \<Rightarrow> s
        | Some t \<Rightarrow> (clearTimeout t s)\<lparr>reconnectTimeoutRef := None\<rparr>)"

text \<open>The \<^verbatim>\<open>catch\<close> block of \<^verbatim>\<open>setupWebRTC\<close>:
  \<^verbatim>\<open>setError(err instanceof Error ? err.message : String(err)); setStatus("Error");
  triggerReconnect();\<close>\<close>

definition catch_block :: "js_exn \<Rightarrow> panel \<Rightarrow> panel" where
  "catch_block e s = triggerReconnect (s\<lparr>error := Some (message_of e), status := ''Error''\<rparr>)"

text \<open>How the \<^verbatim>\<open>try\<close> block ends, up to its next suspension: normally, or by a
  throw that carries the state reached.\<close>

datatype completion = Normal panel | Thrown js_exn panel

fun try_catch :: "completion \<Rightarrow> panel" where
  "try_catch (Normal s) = s"
| "try_catch (Thrown e s) = catch_block e s"

text \<open>What the platform does with the synchronous calls at the head of the
  \<^verbatim>\<open>try\<close> block: the constructor or one of the two \<^verbatim>\<open>addTransceiver\<close> calls
  throws, or all three return.\<close>

datatype sync_outcome = CtorThrows js_exn | VideoThrows js_exn | AudioThrows js_exn | SyncOk

definition new_peer :: peer where
  "new_peer = \<lparr>pc_closed = False, transceivers = [], setLocal_arg = None, setRemote_arg = None\<rparr>"

definition addTransceiver :: "nat \<Rightarrow> string \<Rightarrow> panel \<Rightarrow> panel" where
  "addTransceiver k kind s =
     s\<lparr>pcs := (pcs s)[k := (pcs s ! k)\<lparr>transceivers := transceivers (pcs s ! k) @ [(kind, ''recvonly'')]\<rparr>]\<rparr>"

text \<open>The \<^verbatim>\<open>try\<close> block from \<^verbatim>\<open>new RTCPeerConnection\<close> to the call of
  \<^verbatim>\<open>pc.createOffer()\<close>, where the function suspends. \<open>u\<close> and \<open>n\<close> are the
  \<^verbatim>\<open>config.url\<close> and \<^verbatim>\<open>config.stream\<close> of the closure.\<close>

definition try_head :: "sync_outcome \<Rightarrow> string \<Rightarrow> string \<Rightarrow> panel \<Rightarrow> completion" where
  "try_head oc u n s =
     (case oc of
        CtorThrows e \<Rightarrow> Thrown e s
      | VideoThrows e \<Rightarrow> Thrown e (s\<lparr>pcs := pcs s @ [new_peer], pcRef := Some (length (pcs s))\<rparr>)
      | AudioThrows e \<Rightarrow>
          Thrown e (addTransceiver (length (pcs s)) ''video''
                     (s\<lparr>pcs := pcs s @ [new_peer], pcRef := Some (length (pcs s))\<rparr>))
      | SyncOk \<Rightarrow>
          Normal ((addTransceiver (length (pcs s)) ''audio''
                    (addTransceiver (length (pcs s)) ''video''
                      (s\<lparr>pcs := pcs s @ [new_peer], pcRef := Some (length (pcs s))\<rparr>)))
                  \<lparr>attempts := attempts s @
                     [\<lparr>a_pc = length (pcs s), a_url = u, a_stream = n, a_phase = AwaitOffer\<rparr>]\<rparr>))"

text \<open>\<^verbatim>\<open>setupWebRTC\<close> up to its first suspension. An empty string is falsy.\<close>

definition setupWebRTC :: "sync_outcome \<Rightarrow> panel \<Rightarrow> panel" where
  "setupWebRTC oc s =
     (if url (config s) = [] \<or> stream (config s) = [] then s\<lparr>status := ''Waiting for config''\<rparr>
      else try_catch
             (try_head oc (url (config s)) (stream (config s))
                (drop_session (s\<lparr>status := ''Connecting...'', error := None\<rparr>))))"

text \<open>\<^verbatim>\<open>let endpoint = config.url;
  if (endpoint.endsWith("/")) endpoint = endpoint.slice(0, -1);\<close>\<close>

definition endpoint_of :: "string \<Rightarrow> string" where
  "endpoint_of u = (if u \<noteq> [] \<and> last u = CHR ''/'' then butlast u else u)"

text \<open>The \<^verbatim>\<open>fetch\<close> call: the URL is
  \<^verbatim>\<open>`${endpoint}/api/webrtc?src=${config.stream}`\<close>, the method POST, the body
  \<^verbatim>\<open>pc.localDescription?.sdp\<close>.\<close>

definition signaling_request :: "string \<Rightarrow> string \<Rightarrow> string option \<Rightarrow> request" where
  "signaling_request u n sdp =
     \<lparr>r_url = endpoint_of u @ ''/api/webrtc?src='' @ n, r_method = ''POST'', r_body = sdp\<rparr>"

definition set_phase :: "nat \<Rightarrow> phase \<Rightarrow> panel \<Rightarrow> panel" where
  "set_phase a p s = s\<lparr>attempts := (attempts s)[a := (attempts s ! a)\<lparr>a_phase := p\<rparr>]\<rparr>"

definition waiting :: "nat \<Rightarrow> phase \<Rightarrow> panel \<Rightarrow> bool" where
  "waiting a p s = (a < length (attempts s) \<and> a_phase (attempts s ! a) = p)"

text \<open>The continuations of the \<^verbatim>\<open>try\<close> block. Each takes the result the platform
  settles the awaited promise with: \<open>Inl\<close> a rejection, \<open>Inr\<close> the value. A throw
  ends the call; so does the last statement.\<close>

text \<open>\<^verbatim>\<open>const offer = await pc.createOffer(); await pc.setLocalDescription(offer);\<close>\<close>

definition after_offer :: "nat \<Rightarrow> js_exn + string \<Rightarrow> panel \<Rightarrow> completion" where
  "after_offer a r s =
     (case r of
        Inl e \<Rightarrow> Thrown e (set_phase a Finished s)
      | Inr offer \<Rightarrow>
          Normal (set_phase a AwaitLocal
            (s\<lparr>pcs := (pcs s)[a_pc (attempts s ! a) :=
                  (pcs s ! a_pc (attempts s ! a))\<lparr>setLocal_arg := Some offer\<rparr>]\<rparr>)))"

text \<open>After \<^verbatim>\<open>setLocalDescription\<close>: the endpoint is computed and \<^verbatim>\<open>fetch\<close> is
  called. \<open>Inr sdp\<close> carries what \<^verbatim>\<open>pc.localDescription?.sdp\<close> reads then.\<close>

definition after_local :: "nat \<Rightarrow> js_exn + string option \<Rightarrow> panel \<Rightarrow> completion" where
  "after_local a r s =
     (case r of
        Inl e \<Rightarrow> Thrown e (set_phase a Finished s)
      | Inr sdp \<Rightarrow>
          Normal (set_phase a AwaitFetch
            (s\<lparr>requests := requests s @
                  [signaling_request (a_url (attempts s ! a)) (a_stream (attempts s ! a)) sdp]\<rparr>)))"

text \<open>\<^verbatim>\<open>if (!response.ok) throw new Error(`Failed to connect to go2rtc:
  ${response.statusText}`); const answerSdp = await response.text();\<close>\<close>

definition after_fetch :: "nat \<Rightarrow> js_exn + response \<Rightarrow> panel \<Rightarrow> completion" where
  "after_fetch a r s =
     (case r of
        Inl e \<Rightarrow> Thrown e (set_phase a Finished s)
      | Inr resp \<Rightarrow>
          if \<not> ok resp
          then Thrown (JsError (''Failed to connect to go2rtc: '' @ statusText resp))
                 (set_phase a Finished s)
          else Normal (set_phase a AwaitText s))"

text \<open>\<^verbatim>\<open>await pc.setRemoteDescription(new RTCSessionDescription({ type: "answer",
  sdp: answerSdp }));\<close>\<close>

definition after_text :: "nat \<Rightarrow> js_exn + string \<Rightarrow> panel \<Rightarrow> completion" where
  "after_text a r s =
     (case r of
        Inl e \<Rightarrow> Thrown e (set_phase a Finished s)
      | Inr answerSdp \<Rightarrow>
          Normal (set_phase a AwaitRemote
            (s\<lparr>pcs := (pcs s)[a_pc (attempts s ! a) :=
                  (pcs s ! a_pc (attempts s ! a))\<lparr>setRemote_arg := Some answerSdp\<rparr>]\<rparr>)))"

text \<open>\<^verbatim>\<open>setStatus("Connected");\<close>\<close>

definition after_remote :: "nat \<Rightarrow> js_exn + unit \<Rightarrow> panel \<Rightarrow> completion" where
  "after_remote a r s =
     (case r of
        Inl e \<Rightarrow> Thrown e (set_phase a Finished s)
      | Inr _ \<Rightarrow> Normal (set_phase a Finished (s\<lparr>status := ''Connected''\<rparr>)))"

text \<open>\<^verbatim>\<open>pc.ontrack\<close>: \<^verbatim>\<open>if (videoRef.current) videoRef.current.srcObject =
  event.streams[0]!;\<close> An empty \<^verbatim>\<open>streams\<close> gives \<^verbatim>\<open>undefined\<close>, which the
  nullable attribute stores as null.\<close>

definition ontrack :: "nat list \<Rightarrow> panel \<Rightarrow> panel" where
  "ontrack streams s =
     (case videoRef s of
        None \<Rightarrow> s
      | Some v \<Rightarrow>
          s\<lparr>videoRef := Some (v\<lparr>srcObject := (case streams of [] \<Rightarrow> None | x # _ \<Rightarrow> Some x)\<rparr>)\<rparr>)"

text \<open>\<^verbatim>\<open>updateConnectionStatus\<close>, the handler of both state-change events, with the
  two state labels it reads from the connection.\<close>

definition updateConnectionStatus :: "string \<Rightarrow> string \<Rightarrow> panel \<Rightarrow> panel" where
  "updateConnectionStatus iceState connState s =
     (if iceState = ''failed'' \<or> connState = ''failed''
      then triggerReconnect (s\<lparr>status := ''ICE: '' @ iceState @ '' / CONN: '' @ connState\<rparr>)
      else s\<lparr>status := ''ICE: '' @ iceState @ '' / CONN: '' @ connState\<rparr>)"

section \<open>The latency monitor\<close>

text \<open>One run of the interval callback on the video element; the second component
  is the value handed to \<^verbatim>\<open>setLatency\<close>, if any.\<close>

text \<open>Rounding to the nearest integer, a tie going to the even one.\<close>

definition round_even :: "real \<Rightarrow> int" where
  "round_even r =
     (if r - of_int \<lfloor>r\<rfloor> < 1 / 2 then \<lfloor>r\<rfloor>
      else if 1 / 2 < r - of_int \<lfloor>r\<rfloor> then \<lfloor>r\<rfloor> + 1
      else if even \<lfloor>r\<rfloor> then \<lfloor>r\<rfloor> else \<lfloor>r\<rfloor> + 1)"

text \<open>The distance between neighbouring binary64 values at \<open>x\<close>: 52 fraction bits
  below the exponent of \<open>x\<close>, the exponent being at least that of the subnormal
  range.\<close>

definition ulp :: "real \<Rightarrow> real" where
  "ulp x = 2 powi (max \<lfloor>log 2 \<bar>x\<bar>\<rfloor> (- 1022) - 52)"

text \<open>The binary64 value nearest to a real (ties to even), before overflow is
  looked at.\<close>

definition round64 :: "real \<Rightarrow> real" where
  "round64 x = (if x = 0 then 0 else of_int (round_even (x / ulp x)) * ulp x)"

text \<open>A rounded magnitude of \<open>2 ^ 1024\<close> or more is an infinity.\<close>

definition to_number :: "real \<Rightarrow> number" where
  "to_number r =
     (if 2 ^ 1024 \<le> r then PosInfinity
      else if r \<le> - (2 ^ 1024) then NegInfinity
      else Finite r)"

text \<open>The subtraction \<^verbatim>\<open>a - b\<close> of two finite numbers.\<close>

definition js_minus :: "real \<Rightarrow> real \<Rightarrow> number" where
  "js_minus a b = to_number (round64 (a - b))"

text \<open>The comparison \<^verbatim>\<open>x > c\<close> of a number with a finite one.\<close>

fun exceeds :: "number \<Rightarrow> real \<Rightarrow> bool" where
  "exceeds (Finite r) c = (c < r)"
| "exceeds PosInfinity c = True"
| "exceeds NegInfinity c = False"

text \<open>The order of the numbers.\<close>

fun number_le :: "number \<Rightarrow> number \<Rightarrow> bool" where
  "number_le (Finite a) (Finite b) = (a \<le> b)"
| "number_le NegInfinity y = True"
| "number_le x PosInfinity = True"
| "number_le (Finite a) NegInfinity = False"
| "number_le PosInfinity (Finite b) = False"
| "number_le PosInfinity NegInfinity = False"

text \<open>The ready states of a media element that the claims speak of.\<close>

definition HAVE_FUTURE_DATA :: nat where
  "HAVE_FUTURE_DATA = 3"

definition HAVE_ENOUGH_DATA :: nat where
  "HAVE_ENOUGH_DATA = 4"

text \<open>\<^verbatim>\<open>buffered.end(buffered.length - 1)\<close>, for a non-empty \<^verbatim>\<open>buffered\<close>.\<close>

definition trailing_edge :: "video \<Rightarrow> real" where
  "trailing_edge v = snd (last (buffered v))"

text \<open>\<^verbatim>\<open>const diff = end - video.currentTime;\<close>\<close>

definition drift :: "video \<Rightarrow> number" where
  "drift v = js_minus (trailing_edge v) (currentTime v)"

text \<open>\<^verbatim>\<open>if (video.paused || video.readyState < 3) return;
  if (buffered.length > 0) { ...; setLatency(diff);
  if (diff > 0.5) video.currentTime = end; }\<close>\<close>

definition sample :: "video \<Rightarrow> video \<times> number option" where
  "sample v =
     (if paused v \<or> readyState v < 3 then (v, None)
      else if buffered v = [] then (v, None)
      else (if exceeds (drift v) (1 / 2) then v\<lparr>currentTime := trailing_edge v\<rparr> else v,
            Some (drift v)))"

definition latency_tick :: "panel \<Rightarrow> panel" where
  "latency_tick s =
     (case videoRef s of
        None \<Rightarrow> s
      | Some v \<Rightarrow>
          (case sample v of
             (v', None) \<Rightarrow> s\<lparr>videoRef := Some v'\<rparr>
           | (v', Some d) \<Rightarrow> s\<lparr>videoRef := Some v', latency := d\<rparr>))"

section \<open>Settings, rendering and the events of the panel\<close>

datatype SettingsTreeAction = Update "string list" string | OtherAction

definition path_at :: "string list \<Rightarrow> nat \<Rightarrow> string option" where
  "path_at path i = (if i < length path then Some (path ! i) else None)"

definition settingsActionHandler :: "SettingsTreeAction \<Rightarrow> panel \<Rightarrow> panel" where
  "settingsActionHandler act s =
     (case act of
        OtherAction \<Rightarrow> s
      | Update path v \<Rightarrow>
          if path_at path 0 = Some ''general'' \<and> path_at path 1 = Some ''url''
          then s\<lparr>config := (config s)\<lparr>url := v\<rparr>\<rparr>
          else if path_at path 0 = Some ''general'' \<and> path_at path 1 = Some ''stream''
          then s\<lparr>config := (config s)\<lparr>stream := v\<rparr>\<rparr>
          else s)"

definition deps :: "panel \<Rightarrow> string \<times> string \<times> nat" where
  "deps s = (url (config s), stream (config s), reconnectCount s)"

text \<open>The WebRTC effect: React runs the previous cleanup and then the effect when a
  dependency differs from the last run.\<close>

definition run_effect :: "sync_outcome \<Rightarrow> panel \<Rightarrow> panel" where
  "run_effect oc s = setupWebRTC oc ((cleanup s)\<lparr>effectDeps := Some (deps s)\<rparr>)"

definition render :: "sync_outcome \<Rightarrow> panel \<Rightarrow> panel" where
  "render oc s =
     (if mounted s \<and> effectDeps s \<noteq> Some (deps s) then run_effect oc s else s)"

definition blank_video :: video where
  "blank_video = \<lparr>srcObject = None, paused = False, readyState = 0, buffered = [], currentTime = 0\<rparr>"

text \<open>The first render and its effects: the state cells take their initial values
  and \<^verbatim>\<open>setupWebRTC\<close> runs.\<close>

definition mount :: "PartialConfig option \<Rightarrow> sync_outcome \<Rightarrow> panel" where
  "mount initialState oc =
     setupWebRTC oc
       \<lparr>config = spread DEFAULT_CONFIG initialState,
        mounted = True,
        effectDeps = Some (url (spread DEFAULT_CONFIG initialState),
                           stream (spread DEFAULT_CONFIG initialState), 0),
        videoRef = Some blank_video,
        pcRef = None,
        reconnectTimeoutRef = None,
        error = None,
        status = ''Disconnected'',
        reconnectCount = 0,
        reconnectCountRef = 0,
        latency = Finite 0,
        now = 0,
        timerSeq = 0,
        timers = [],
        pcs = [],
        attempts = [],
        requests = []\<rparr>"

text \<open>Unmounting runs the cleanup and detaches the video element.\<close>

definition unmount :: "panel \<Rightarrow> panel" where
  "unmount s = (if mounted s then (cleanup s)\<lparr>mounted := False, videoRef := None\<rparr> else s)"

datatype event =
    Render sync_outcome
  | SettingsAction SettingsTreeAction
  | ReconnectClick
  | Unmount
  | Advance nat
  | TimerFired nat
  | OfferSettled nat "js_exn + string"
  | LocalSettled nat "js_exn + string option"
  | FetchSettled nat "js_exn + response"
  | TextSettled nat "js_exn + string"
  | RemoteSettled nat "js_exn + unit"
  | Track nat "nat list"
  | StateChange nat string string
  | Playback bool nat "(real \<times> real) list" real
  | LatencyTick

text \<open>One event of the single-threaded event loop. A settlement is delivered only
  to an attempt that waits for it, a connection event only to a connection that
  exists, the interval and the button only while the panel is mounted.\<close>

fun step :: "event \<Rightarrow> panel \<Rightarrow> panel" where
  "step (Render oc) s = render oc s"
| "step (SettingsAction act) s = (if mounted s then settingsActionHandler act s else s)"
| "step ReconnectClick s = (if mounted s then s\<lparr>reconnectCount := reconnectCount s + 1\<rparr> else s)"
| "step Unmount s = unmount s"
| "step (Advance d) s = s\<lparr>now := now s + d\<rparr>"
| "step (TimerFired t) s = fire_timer t s"
| "step (OfferSettled a r) s = (if waiting a AwaitOffer s then try_catch (after_offer a r s) else s)"
| "step (LocalSettled a r) s = (if waiting a AwaitLocal s then try_catch (after_local a r s) else s)"
| "step (FetchSettled a r) s = (if waiting a AwaitFetch s then try_catch (after_fetch a r s) else s)"
| "step (TextSettled a r) s = (if waiting a AwaitText s then try_catch (after_text a r s) else s)"
| "step (RemoteSettled a r) s = (if waiting a AwaitRemote s then try_catch (after_remote a r s) else s)"
| "step (Track k streams) s = (if k < length (pcs s) then ontrack streams s else s)"
| "step (StateChange k iceState connState) s =
     (if k < length (pcs s) then updateConnectionStatus iceState connState s else s)"
| "step (Playback p r b t) s =
     (case videoRef s of
        None \<Rightarrow> s
      | Some v \<Rightarrow> s\<lparr>videoRef := Some (v\<lparr>paused := p, readyState := r, buffered := b, currentTime := t\<rparr>)\<rparr>)"
| "step LatencyTick s = (if mounted s then latency_tick s else s)"

fun run :: "event list \<Rightarrow> panel \<Rightarrow> panel" where
  "run [] s = s"
| "run (e # es) s = run es (step e s)"

section \<open>Derived notions\<close>

text \<open>The pending timers are exactly the one the reference holds, if it holds one.\<close>

definition timer_inv :: "panel \<Rightarrow> bool" where
  "timer_inv s =
     (map fst (timers s) = (case reconnectTimeoutRef s of None \<Rightarrow> [] | Some t \<Rightarrow> [t]))"

text \<open>The stream the render sink shows.\<close>

definition attached :: "panel \<Rightarrow> nat option" where
  "attached s = (case videoRef s of None \<Rightarrow> None | Some v \<Rightarrow> srcObject v)"

text \<open>Every handle in use names a connection that was constructed.\<close>

fun valid_ref :: "nat option \<Rightarrow> nat \<Rightarrow> bool" where
  "valid_ref None n = True"
| "valid_ref (Some k) n = (k < n)"

definition handles_inv :: "panel \<Rightarrow> bool" where
  "handles_inv s =
     (list_all (\<lambda>k. k < length (pcs s)) (map a_pc (attempts s)) \<and>
      valid_ref (pcRef s) (length (pcs s)))"

text \<open>The events by which the platform settles a promise a call of
  \<^verbatim>\<open>setupWebRTC\<close> awaits.\<close>

fun settlement :: "event \<Rightarrow> bool" where
  "settlement (OfferSettled a r) = True"
| "settlement (LocalSettled a r) = True"
| "settlement (FetchSettled a r) = True"
| "settlement (TextSettled a r) = True"
| "settlement (RemoteSettled a r) = True"
| "settlement e = False"

text \<open>The controller waits for a configuration: a field is empty, the status says
  so, and no call of \<^verbatim>\<open>setupWebRTC\<close> is suspended.\<close>

definition waits :: "panel \<Rightarrow> bool" where
  "waits s =
     ((url (config s) = [] \<or> stream (config s) = []) \<and>
      list_all (\<lambda>x. a_phase x = Finished) (attempts s) \<and>
      status s = ''Waiting for config'')"

text \<open>The events that edit the configuration or report the state of a
  connection.\<close>

fun external :: "event \<Rightarrow> bool" where
  "external (SettingsAction act) = True"
| "external (StateChange k iceState connState) = True"
| "external e = False"

text \<open>The track events.\<close>

fun is_track :: "event \<Rightarrow> bool" where
  "is_track (Track k streams) = True"
| "is_track e = False"

text \<open>The stream the sink shows after a sequence of events, given the one it
  showed before: the first stream of the last track event that carries one.\<close>

fun shown :: "event list \<Rightarrow> nat option \<Rightarrow> nat option" where
  "shown [] cur = cur"
| "shown (Track k (x # xs) # es) cur = shown es (Some x)"
| "shown (e # es) cur = shown es cur"

text \<open>A sequence of events in which the video element stays mounted and every track
  event belongs to a connection that exists when the event arrives and carries a
  stream, as the non-null assertion on \<^verbatim>\<open>event.streams[0]\<close> expects.\<close>

fun delivered :: "event list \<Rightarrow> panel \<Rightarrow> bool" where
  "delivered [] s = True"
| "delivered (e # es) s =
     ((case e of
         Unmount \<Rightarrow> False
       | Track k streams \<Rightarrow> k < length (pcs s) \<and> streams \<noteq> []
       | _ \<Rightarrow> True) \<and>
      delivered es (step e s))"

section \<open>Basic facts\<close>

lemma drop_session_fields [simp]:
  "timers (drop_session s) = timers s"
  "reconnectTimeoutRef (drop_session s) = reconnectTimeoutRef s"
  "pcRef (drop_session s) = None"
  "attempts (drop_session s) = attempts s"
  "requests (drop_session s) = requests s"
  "length (pcs (drop_session s)) = length (pcs s)"
  "status (drop_session s) = status s"
  "error (drop_session s) = error s"
  "now (drop_session s) = now s"
  "videoRef (drop_session s) = videoRef s"
  "config (drop_session s) = config s"
  "reconnectCount (drop_session s) = reconnectCount s"
  "mounted (drop_session s) = mounted s"
  "effectDeps (drop_session s) = effectDeps s"
  by (simp_all add: drop_session_def close_pc_def split: option.splits)

lemma timer_inv_triggerReconnect: "timer_inv s \<Longrightarrow> timer_inv (triggerReconnect s)"
  by (auto simp: timer_inv_def triggerReconnect_def split: option.splits)

lemma timer_inv_upd [simp]:
  "timer_inv (s\<lparr>status := x\<rparr>) = timer_inv s"
  "timer_inv (s\<lparr>error := y\<rparr>) = timer_inv s"
  "timer_inv (s\<lparr>pcs := z\<rparr>) = timer_inv s"
  "timer_inv (s\<lparr>pcRef := w\<rparr>) = timer_inv s"
  "timer_inv (s\<lparr>attempts := a\<rparr>) = timer_inv s"
  "timer_inv (s\<lparr>requests := r\<rparr>) = timer_inv s"
  "timer_inv (s\<lparr>videoRef := v\<rparr>) = timer_inv s"
  "timer_inv (s\<lparr>latency := l\<rparr>) = timer_inv s"
  "timer_inv (s\<lparr>now := n\<rparr>) = timer_inv s"
  "timer_inv (s\<lparr>config := c\<rparr>) = timer_inv s"
  "timer_inv (s\<lparr>mounted := m\<rparr>) = timer_inv s"
  "timer_inv (s\<lparr>effectDeps := d\<rparr>) = timer_inv s"
  "timer_inv (s\<lparr>reconnectCount := k\<rparr>) = timer_inv s"
  "timer_inv (s\<lparr>reconnectCountRef := k\<rparr>) = timer_inv s"
  by (simp_all add: timer_inv_def)

lemma timer_inv_drop_session [simp]: "timer_inv (drop_session s) = timer_inv s"
  by (simp add: timer_inv_def)

lemma timers_cleanup: "timer_inv s \<Longrightarrow> timers (cleanup s) = []"
  by (auto simp: cleanup_def clearTimeout_def timer_inv_def split: option.splits)

lemma refs_cleanup [simp]: "reconnectTimeoutRef (cleanup s) = None" "pcRef (cleanup s) = None"
  by (auto simp: cleanup_def clearTimeout_def split: option.splits)

lemma timer_inv_cleanup: "timer_inv s \<Longrightarrow> timer_inv (cleanup s)"
  using timers_cleanup[of s] by (simp add: timer_inv_def)

lemma timer_inv_catch_block: "timer_inv s \<Longrightarrow> timer_inv (catch_block e s)"
  by (simp add: catch_block_def timer_inv_triggerReconnect)

lemma timer_inv_set_phase [simp]: "timer_inv (set_phase a p s) = timer_inv s"
  by (simp add: set_phase_def)

lemma timer_inv_addTransceiver [simp]: "timer_inv (addTransceiver k kind s) = timer_inv s"
  by (simp add: addTransceiver_def)

lemma timer_inv_try_head: "timer_inv s \<Longrightarrow> timer_inv (try_catch (try_head oc u n s))"
  by (cases oc) (simp_all add: try_head_def timer_inv_catch_block)

lemma timer_inv_setupWebRTC: "timer_inv s \<Longrightarrow> timer_inv (setupWebRTC oc s)"
  by (simp add: setupWebRTC_def timer_inv_try_head)

lemma timer_inv_fire: "timer_inv s \<Longrightarrow> timer_inv (fire_timer t s)"
  by (auto simp: fire_timer_def timer_callback_def timer_inv_def split: option.splits
      dest: map_of_SomeD)

lemma timer_inv_render: "timer_inv s \<Longrightarrow> timer_inv (render oc s)"
  by (simp add: render_def run_effect_def timer_inv_setupWebRTC timer_inv_cleanup)

lemma timer_inv_settled:
  "timer_inv s \<Longrightarrow> timer_inv (try_catch (after_offer a r1 s))"
  "timer_inv s \<Longrightarrow> timer_inv (try_catch (after_local a r2 s))"
  "timer_inv s \<Longrightarrow> timer_inv (try_catch (after_fetch a r3 s))"
  "timer_inv s \<Longrightarrow> timer_inv (try_catch (after_text a r4 s))"
  "timer_inv s \<Longrightarrow> timer_inv (try_catch (after_remote a r5 s))"
  by (simp_all add: after_offer_def after_local_def after_fetch_def after_text_def
      after_remote_def timer_inv_catch_block split: sum.splits)

lemma timer_inv_handlers:
  "timer_inv s \<Longrightarrow> timer_inv (unmount s)"
  "timer_inv s \<Longrightarrow> timer_inv (settingsActionHandler act s)"
  "timer_inv s \<Longrightarrow> timer_inv (ontrack streams s)"
  "timer_inv s \<Longrightarrow> timer_inv (updateConnectionStatus i c s)"
  "timer_inv s \<Longrightarrow> timer_inv (latency_tick s)"
  by (simp_all add: unmount_def timer_inv_cleanup settingsActionHandler_def ontrack_def
      updateConnectionStatus_def timer_inv_triggerReconnect latency_tick_def
      split: SettingsTreeAction.splits option.splits prod.splits)

lemma timer_inv_step: "timer_inv s \<Longrightarrow> timer_inv (step e s)"
  by (cases e)
     (simp_all add: timer_inv_render timer_inv_settled timer_inv_handlers timer_inv_fire
       split: option.splits)

lemma timer_inv_run: "timer_inv s \<Longrightarrow> timer_inv (run es s)"
  by (induction es arbitrary: s) (simp_all add: timer_inv_step)

lemma timer_inv_mount: "timer_inv (mount p oc)"
  unfolding mount_def by (rule timer_inv_setupWebRTC) (simp add: timer_inv_def)

lemma timer_inv_reachable: "timer_inv (run es (mount p oc))"
  by (rule timer_inv_run) (rule timer_inv_mount)

lemmas eval_defs = mount_def setupWebRTC_def spread_def DEFAULT_CONFIG_def try_head_def
  drop_session_def addTransceiver_def new_peer_def waiting_def after_offer_def after_local_def
  after_fetch_def after_text_def after_remote_def set_phase_def catch_block_def
  triggerReconnect_def signaling_request_def endpoint_of_def render_def run_effect_def
  cleanup_def clearTimeout_def close_pc_def deps_def fire_timer_def timer_callback_def
  ontrack_def updateConnectionStatus_def unmount_def settingsActionHandler_def path_at_def
  blank_video_def attached_def

lemma timer_inv_iter: "timer_inv s \<Longrightarrow> timer_inv ((triggerReconnect ^^ n) s)"
  by (induction n) (simp_all add: timer_inv_triggerReconnect)

lemma timer_inv_length: "timer_inv s \<Longrightarrow> length (timers s) \<le> 1"
proof -
  assume "timer_inv s"
  then have "length (map fst (timers s)) \<le> 1"
    by (simp add: timer_inv_def split: option.splits)
  then show ?thesis by simp
qed

lemma cleanup_fields [simp]:
  "attempts (cleanup s) = attempts s"
  "requests (cleanup s) = requests s"
  "length (pcs (cleanup s)) = length (pcs s)"
  "status (cleanup s) = status s"
  "error (cleanup s) = error s"
  "now (cleanup s) = now s"
  "videoRef (cleanup s) = videoRef s"
  "config (cleanup s) = config s"
  "reconnectCount (cleanup s) = reconnectCount s"
  "mounted (cleanup s) = mounted s"
  "effectDeps (cleanup s) = effectDeps s"
  by (simp_all add: cleanup_def clearTimeout_def split: option.splits)

lemma cleanup_idle: "pcRef s = None \<Longrightarrow> reconnectTimeoutRef s = None \<Longrightarrow> cleanup s = s"
  by (simp add: cleanup_def drop_session_def)

lemma cleanup_closes:
  "pcRef s = Some k \<Longrightarrow> k < length (pcs s) \<Longrightarrow> pc_closed (pcs (cleanup s) ! k)"
  by (simp add: cleanup_def drop_session_def close_pc_def clearTimeout_def split: option.splits)

lemma config_setupWebRTC [simp]: "config (setupWebRTC oc s) = config s"
  by (cases oc)
     (simp_all add: setupWebRTC_def try_head_def catch_block_def triggerReconnect_def
       addTransceiver_def)

lemma catch_block_fields [simp]:
  "requests (catch_block e s) = requests s"
  "attempts (catch_block e s) = attempts s"
  "pcs (catch_block e s) = pcs s"
  "pcRef (catch_block e s) = pcRef s"
  "config (catch_block e s) = config s"
  "videoRef (catch_block e s) = videoRef s"
  "now (catch_block e s) = now s"
  "mounted (catch_block e s) = mounted s"
  "effectDeps (catch_block e s) = effectDeps s"
  "reconnectCount (catch_block e s) = reconnectCount s"
  "error (catch_block e s) = Some (message_of e)"
  "reconnectTimeoutRef (catch_block e s) \<noteq> None"
  by (simp_all add: catch_block_def triggerReconnect_def)

lemma set_phase_fields [simp]:
  "requests (set_phase a p s) = requests s"
  "pcs (set_phase a p s) = pcs s"
  "pcRef (set_phase a p s) = pcRef s"
  "config (set_phase a p s) = config s"
  "videoRef (set_phase a p s) = videoRef s"
  "now (set_phase a p s) = now s"
  "timers (set_phase a p s) = timers s"
  "reconnectTimeoutRef (set_phase a p s) = reconnectTimeoutRef s"
  "status (set_phase a p s) = status s"
  "error (set_phase a p s) = error s"
  "mounted (set_phase a p s) = mounted s"
  "effectDeps (set_phase a p s) = effectDeps s"
  "reconnectCount (set_phase a p s) = reconnectCount s"
  "length (attempts (set_phase a p s)) = length (attempts s)"
  by (simp_all add: set_phase_def)

lemma map_a_pc_set_phase [simp]: "map a_pc (attempts (set_phase a p s)) = map a_pc (attempts s)"
proof (rule nth_equalityI)
  show "length (map a_pc (attempts (set_phase a p s))) = length (map a_pc (attempts s))"
    by (simp add: set_phase_def)
next
  fix i
  assume "i < length (map a_pc (attempts (set_phase a p s)))"
  then have "i < length (attempts s)"
    by (simp add: set_phase_def)
  then show "map a_pc (attempts (set_phase a p s)) ! i = map a_pc (attempts s) ! i"
    by (cases "i = a") (simp_all add: set_phase_def)
qed

lemma waiting_set_phase:
  "a < length (attempts s) \<Longrightarrow> waiting a q (set_phase a p s) = (q = p)"
  by (auto simp: waiting_def set_phase_def)

lemma handles_inv_upd [simp]:
  "handles_inv (s\<lparr>status := x\<rparr>) = handles_inv s"
  "handles_inv (s\<lparr>error := y\<rparr>) = handles_inv s"
  "handles_inv (s\<lparr>requests := r\<rparr>) = handles_inv s"
  "handles_inv (s\<lparr>videoRef := v\<rparr>) = handles_inv s"
  "handles_inv (s\<lparr>latency := l\<rparr>) = handles_inv s"
  "handles_inv (s\<lparr>now := n\<rparr>) = handles_inv s"
  "handles_inv (s\<lparr>config := c\<rparr>) = handles_inv s"
  "handles_inv (s\<lparr>mounted := m\<rparr>) = handles_inv s"
  "handles_inv (s\<lparr>effectDeps := d\<rparr>) = handles_inv s"
  "handles_inv (s\<lparr>reconnectCount := k\<rparr>) = handles_inv s"
  "handles_inv (s\<lparr>reconnectCountRef := k\<rparr>) = handles_inv s"
  "handles_inv (s\<lparr>timers := ts\<rparr>) = handles_inv s"
  "handles_inv (s\<lparr>timerSeq := q\<rparr>) = handles_inv s"
  "handles_inv (s\<lparr>reconnectTimeoutRef := t\<rparr>) = handles_inv s"
  by (simp_all add: handles_inv_def)

lemma handles_inv_pcs_update [simp]: "handles_inv (s\<lparr>pcs := (pcs s)[k := x]\<rparr>) = handles_inv s"
  by (simp add: handles_inv_def)

lemma handles_inv_set_phase [simp]: "handles_inv (set_phase a p s) = handles_inv s"
  by (simp add: handles_inv_def)

lemma valid_ref_mono: "valid_ref r n \<Longrightarrow> n \<le> m \<Longrightarrow> valid_ref r m"
  by (cases r) simp_all

lemma handles_inv_drop_session: "handles_inv s \<Longrightarrow> handles_inv (drop_session s)"
  by (simp add: handles_inv_def drop_session_def close_pc_def split: option.splits)

lemma handles_inv_cleanup: "handles_inv s \<Longrightarrow> handles_inv (cleanup s)"
  by (simp add: cleanup_def clearTimeout_def handles_inv_drop_session split: option.splits)

lemma handles_inv_triggerReconnect [simp]: "handles_inv (triggerReconnect s) = handles_inv s"
  by (simp add: triggerReconnect_def)

lemma handles_inv_catch_block [simp]: "handles_inv (catch_block e s) = handles_inv s"
  by (simp add: catch_block_def)

lemma handles_inv_addTransceiver [simp]: "handles_inv (addTransceiver k kind s) = handles_inv s"
  by (simp add: addTransceiver_def)

lemma less_Suc_all: "list_all (\<lambda>k. k < n) ks \<Longrightarrow> list_all (\<lambda>k. k < Suc n) ks"
  by (induction ks) simp_all

lemma handles_inv_try_head: "handles_inv s \<Longrightarrow> handles_inv (try_catch (try_head oc u n s))"
  by (cases oc) (simp_all add: try_head_def addTransceiver_def handles_inv_def less_Suc_all)

lemma handles_inv_setupWebRTC: "handles_inv s \<Longrightarrow> handles_inv (setupWebRTC oc s)"
  by (simp add: setupWebRTC_def handles_inv_try_head handles_inv_drop_session)

lemma handles_inv_render: "handles_inv s \<Longrightarrow> handles_inv (render oc s)"
  by (simp add: render_def run_effect_def handles_inv_setupWebRTC handles_inv_cleanup)

lemma handles_inv_settled:
  "handles_inv s \<Longrightarrow> handles_inv (try_catch (after_offer a r1 s))"
  "handles_inv s \<Longrightarrow> handles_inv (try_catch (after_local a r2 s))"
  "handles_inv s \<Longrightarrow> handles_inv (try_catch (after_fetch a r3 s))"
  "handles_inv s \<Longrightarrow> handles_inv (try_catch (after_text a r4 s))"
  "handles_inv s \<Longrightarrow> handles_inv (try_catch (after_remote a r5 s))"
  by (simp_all add: after_offer_def after_local_def after_fetch_def after_text_def
      after_remote_def split: sum.splits)

lemma handles_inv_handlers:
  "handles_inv s \<Longrightarrow> handles_inv (unmount s)"
  "handles_inv s \<Longrightarrow> handles_inv (settingsActionHandler act s)"
  "handles_inv s \<Longrightarrow> handles_inv (ontrack streams s)"
  "handles_inv s \<Longrightarrow> handles_inv (updateConnectionStatus i c s)"
  "handles_inv s \<Longrightarrow> handles_inv (latency_tick s)"
  "handles_inv s \<Longrightarrow> handles_inv (fire_timer t s)"
  by (simp_all add: unmount_def handles_inv_cleanup settingsActionHandler_def ontrack_def
      updateConnectionStatus_def latency_tick_def fire_timer_def timer_callback_def
      split: SettingsTreeAction.splits option.splits prod.splits)

lemma handles_inv_step: "handles_inv s \<Longrightarrow> handles_inv (step e s)"
  by (cases e)
     (simp_all add: handles_inv_render handles_inv_settled handles_inv_handlers
       split: option.splits)

lemma handles_inv_run: "handles_inv s \<Longrightarrow> handles_inv (run es s)"
  by (induction es arbitrary: s) (simp_all add: handles_inv_step)

lemma handles_inv_mount: "handles_inv (mount p oc)"
  unfolding mount_def by (rule handles_inv_setupWebRTC) (simp add: handles_inv_def)

lemma handles_inv_reachable: "handles_inv (run es (mount p oc))"
  by (rule handles_inv_run) (rule handles_inv_mount)

lemma attempt_pc_valid:
  "handles_inv s \<Longrightarrow> a < length (attempts s) \<Longrightarrow> a_pc (attempts s ! a) < length (pcs s)"
  by (simp add: handles_inv_def list_all_length)

lemma requests_try_head [simp]: "requests (try_catch (try_head oc u n s)) = requests s"
  by (cases oc) (simp_all add: try_head_def addTransceiver_def)

lemma requests_setupWebRTC [simp]: "requests (setupWebRTC oc s) = requests s"
  by (simp add: setupWebRTC_def)

lemma requests_render [simp]: "requests (render oc s) = requests s"
  by (simp add: render_def run_effect_def)

lemma requests_settled [simp]:
  "requests (try_catch (after_offer a r1 s)) = requests s"
  "requests (try_catch (after_fetch a r3 s)) = requests s"
  "requests (try_catch (after_text a r4 s)) = requests s"
  "requests (try_catch (after_remote a r5 s)) = requests s"
  "requests (try_catch (after_local a (Inl e) s)) = requests s"
  "requests (try_catch (after_local a (Inr sdp) s)) =
     requests s @ [signaling_request (a_url (attempts s ! a)) (a_stream (attempts s ! a)) sdp]"
  by (simp_all add: after_offer_def after_local_def after_fetch_def after_text_def
      after_remote_def split: sum.splits)

lemma requests_handlers [simp]:
  "requests (unmount s) = requests s"
  "requests (settingsActionHandler act s) = requests s"
  "requests (ontrack streams s) = requests s"
  "requests (updateConnectionStatus i c s) = requests s"
  "requests (latency_tick s) = requests s"
  "requests (fire_timer t s) = requests s"
  by (simp_all add: unmount_def settingsActionHandler_def ontrack_def
      updateConnectionStatus_def latency_tick_def fire_timer_def timer_callback_def
      triggerReconnect_def
      split: SettingsTreeAction.splits option.splits prod.splits)

lemma requests_step:
  "requests (step e s) = requests s \<or>
   (\<exists>a sdp. e = LocalSettled a (Inr sdp) \<and> waiting a AwaitLocal s \<and>
      requests (step e s) =
        requests s @ [signaling_request (a_url (attempts s ! a)) (a_stream (attempts s ! a)) sdp])"
proof (cases e)
  case (LocalSettled a r)
  then show ?thesis by (cases r) simp_all
qed (simp_all split: option.splits)

lemma waiting_after:
  "waiting a AwaitOffer s \<Longrightarrow> waiting a AwaitLocal (try_catch (after_offer a (Inr x1) s))"
  "waiting a AwaitLocal s \<Longrightarrow> waiting a AwaitFetch (try_catch (after_local a (Inr x2) s))"
  "waiting a AwaitFetch s \<Longrightarrow> ok x3 \<Longrightarrow> waiting a AwaitText (try_catch (after_fetch a (Inr x3) s))"
  "waiting a AwaitText s \<Longrightarrow> waiting a AwaitRemote (try_catch (after_text a (Inr x4) s))"
  "waiting a AwaitRemote s \<Longrightarrow> waiting a Finished (try_catch (after_remote a (Inr x5) s))"
  by (simp_all add: after_offer_def after_local_def after_fetch_def after_text_def
      after_remote_def waiting_def set_phase_def)

lemma endpoint_of_slash: "endpoint_of (u @ ''/'') = u"
  by (simp add: endpoint_of_def)

lemma endpoint_of_other: "u = [] \<or> last u \<noteq> CHR ''/'' \<Longrightarrow> endpoint_of u = u"
  by (auto simp: endpoint_of_def)

lemma catch_block_status:
  "status (catch_block e m) = (if reconnectTimeoutRef m = None then ''Retrying in 2s...'' else ''Error'')"
  by (simp add: catch_block_def triggerReconnect_def)

lemma try_head_throws:
  "oc = CtorThrows e \<or> oc = VideoThrows e \<or> oc = AudioThrows e \<Longrightarrow>
   \<exists>m. try_catch (try_head oc u n s) = catch_block e m"
  by (auto simp: try_head_def)

lemma setupWebRTC_throws:
  assumes "url (config s) \<noteq> []" "stream (config s) \<noteq> []"
    and "oc = CtorThrows e \<or> oc = VideoThrows e \<or> oc = AudioThrows e"
  shows "\<exists>m. setupWebRTC oc s = catch_block e m"
  using assms(1,2) try_head_throws[OF assms(3)] by (simp add: setupWebRTC_def)

lemma videoRef_try_head [simp]: "videoRef (try_catch (try_head oc u n s)) = videoRef s"
  by (cases oc) (simp_all add: try_head_def addTransceiver_def)

lemma videoRef_setupWebRTC [simp]: "videoRef (setupWebRTC oc s) = videoRef s"
  by (simp add: setupWebRTC_def)

lemma videoRef_render [simp]: "videoRef (render oc s) = videoRef s"
  by (simp add: render_def run_effect_def)

lemma videoRef_settled [simp]:
  "videoRef (try_catch (after_offer a r1 s)) = videoRef s"
  "videoRef (try_catch (after_local a r2 s)) = videoRef s"
  "videoRef (try_catch (after_fetch a r3 s)) = videoRef s"
  "videoRef (try_catch (after_text a r4 s)) = videoRef s"
  "videoRef (try_catch (after_remote a r5 s)) = videoRef s"
  by (simp_all add: after_offer_def after_local_def after_fetch_def after_text_def
      after_remote_def split: sum.splits)

lemma videoRef_handlers [simp]:
  "videoRef (settingsActionHandler act s) = videoRef s"
  "videoRef (updateConnectionStatus i c s) = videoRef s"
  "videoRef (fire_timer t s) = videoRef s"
  by (simp_all add: settingsActionHandler_def updateConnectionStatus_def fire_timer_def
      timer_callback_def triggerReconnect_def
      split: SettingsTreeAction.splits option.splits)

lemma srcObject_sample [simp]: "srcObject (fst (sample v)) = srcObject v"
  by (simp add: sample_def)

lemma attached_latency_tick [simp]: "attached (latency_tick s) = attached s"
proof (cases "videoRef s")
  case None
  then show ?thesis by (simp add: latency_tick_def)
next
  case (Some v)
  obtain v' l where sv: "sample v = (v', l)" by (cases "sample v")
  then have "srcObject v' = srcObject v"
    using srcObject_sample[of v] by simp
  with Some sv show ?thesis
    by (cases l) (simp_all add: latency_tick_def attached_def)
qed

lemma attached_ontrack:
  "videoRef s \<noteq> None \<Longrightarrow> attached (ontrack streams s) = (case streams of [] \<Rightarrow> None | x # _ \<Rightarrow> Some x)"
  by (auto simp: ontrack_def attached_def)

lemma attached_step:
  "(case e of Track k streams \<Rightarrow> True | Unmount \<Rightarrow> True | _ \<Rightarrow> attached (step e s) = attached s)"
proof (cases e)
  case LatencyTick
  then show ?thesis by simp
qed (simp_all add: attached_def split: option.splits)

lemma success_run:
  assumes w: "waiting a AwaitOffer s" and k: "ok resp"
  shows "status (run [OfferSettled a (Inr offer), LocalSettled a (Inr sdp),
                      FetchSettled a (Inr resp), TextSettled a (Inr answer),
                      RemoteSettled a (Inr u)] s) = ''Connected''"
proof -
  let ?s1 = "try_catch (after_offer a (Inr offer) s)"
  let ?s2 = "try_catch (after_local a (Inr sdp) ?s1)"
  let ?s3 = "try_catch (after_fetch a (Inr resp) ?s2)"
  let ?s4 = "try_catch (after_text a (Inr answer) ?s3)"
  have w1: "waiting a AwaitLocal ?s1" by (rule waiting_after(1)[OF w])
  have w2: "waiting a AwaitFetch ?s2" by (rule waiting_after(2)[OF w1])
  have w3: "waiting a AwaitText ?s3" by (rule waiting_after(3)[OF w2 k])
  have w4: "waiting a AwaitRemote ?s4" by (rule waiting_after(4)[OF w3])
  have "run [OfferSettled a (Inr offer), LocalSettled a (Inr sdp),
             FetchSettled a (Inr resp), TextSettled a (Inr answer),
             RemoteSettled a (Inr u)] s = try_catch (after_remote a (Inr u) ?s4)"
    using w w1 w2 w3 w4 by simp
  then show ?thesis by (simp add: after_remote_def)
qed

lemma map_of_filter_out: "map_of (filter (\<lambda>p. fst p \<noteq> t) xs) t = None"
  by (induction xs) auto

lemma cleanup_cancels: "reconnectTimeoutRef s = Some t \<Longrightarrow> map_of (timers (cleanup s)) t = None"
  by (simp add: cleanup_def clearTimeout_def map_of_filter_out)

lemma fire_early: "map_of (timers s) t = Some d \<Longrightarrow> now s < d \<Longrightarrow> fire_timer t s = s"
  by (simp add: fire_timer_def)

lemma fire_absent: "map_of (timers s) t = None \<Longrightarrow> fire_timer t s = s"
  by (simp add: fire_timer_def)

lemma fire_due:
  "map_of (timers s) t = Some d \<Longrightarrow> d \<le> now s \<Longrightarrow>
   fire_timer t s =
     s\<lparr>timers := filter (\<lambda>p. fst p \<noteq> t) (timers s),
       reconnectCountRef := reconnectCountRef s + 1,
       reconnectCount := reconnectCount s + 1,
       reconnectTimeoutRef := None\<rparr>"
  by (simp add: fire_timer_def timer_callback_def)

lemma run_effect_connecting:
  "url (config s) \<noteq> [] \<Longrightarrow> stream (config s) \<noteq> [] \<Longrightarrow>
   status (run_effect SyncOk s) = ''Connecting...'' \<and>
   length (attempts (run_effect SyncOk s)) = Suc (length (attempts s)) \<and>
   now (run_effect SyncOk s) = now s"
  by (simp add: run_effect_def setupWebRTC_def try_head_def addTransceiver_def)

lemma map_update_inert:
  assumes "\<And>x. f (g x) = f x"
  shows "map f (xs[k := g (xs ! k)]) = map f xs"
proof (rule nth_equalityI)
  show "length (map f (xs[k := g (xs ! k)])) = length (map f xs)" by simp
next
  fix i
  assume "i < length (map f (xs[k := g (xs ! k)]))"
  then have "i < length xs" by simp
  then show "map f (xs[k := g (xs ! k)]) ! i = map f xs ! i"
    by (cases "i = k") (simp_all add: assms)
qed

lemma closed_setLocal: "map pc_closed (xs[k := (xs ! k)\<lparr>setLocal_arg := v\<rparr>]) = map pc_closed xs"
  by (rule map_update_inert[where g = "\<lambda>x. x\<lparr>setLocal_arg := v\<rparr>"]) simp

lemma closed_setRemote: "map pc_closed (xs[k := (xs ! k)\<lparr>setRemote_arg := v\<rparr>]) = map pc_closed xs"
  by (rule map_update_inert[where g = "\<lambda>x. x\<lparr>setRemote_arg := v\<rparr>"]) simp

lemma settled_session:
  "pcRef (try_catch (after_offer a r1 s)) = pcRef s \<and>
   map pc_closed (pcs (try_catch (after_offer a r1 s))) = map pc_closed (pcs s)"
  "pcRef (try_catch (after_local a r2 s)) = pcRef s \<and>
   map pc_closed (pcs (try_catch (after_local a r2 s))) = map pc_closed (pcs s)"
  "pcRef (try_catch (after_fetch a r3 s)) = pcRef s \<and>
   map pc_closed (pcs (try_catch (after_fetch a r3 s))) = map pc_closed (pcs s)"
  "pcRef (try_catch (after_text a r4 s)) = pcRef s \<and>
   map pc_closed (pcs (try_catch (after_text a r4 s))) = map pc_closed (pcs s)"
  "pcRef (try_catch (after_remote a r5 s)) = pcRef s \<and>
   map pc_closed (pcs (try_catch (after_remote a r5 s))) = map pc_closed (pcs s)"
  by (simp_all add: after_offer_def after_local_def after_fetch_def after_text_def
      after_remote_def closed_setLocal closed_setRemote split: sum.splits)

lemma settlement_session:
  "settlement e \<Longrightarrow>
   pcRef (step e s) = pcRef s \<and> map pc_closed (pcs (step e s)) = map pc_closed (pcs s)"
  by (cases e) (simp_all add: settled_session)

lemma waiting_cleanup [simp]: "waiting a ph (cleanup s) = waiting a ph s"
  by (simp add: waiting_def)

lemma set_phase_ref [simp]: "timerSeq (set_phase a p s) = timerSeq s"
  by (simp add: set_phase_def)

lemma ulp_pos: "0 < ulp x"
  by (simp add: ulp_def)

lemma round_even_nonpos: "r \<le> 0 \<Longrightarrow> round_even r \<le> 0"
  unfolding round_even_def by (auto; linarith)

lemma round64_nonpos: "x \<le> 0 \<Longrightarrow> round64 x \<le> 0"
proof -
  assume x: "x \<le> 0"
  have "x / ulp x \<le> 0"
    using x ulp_pos[of x] by (simp add: divide_le_0_iff)
  then have "round_even (x / ulp x) \<le> 0"
    by (rule round_even_nonpos)
  then have "of_int (round_even (x / ulp x)) * ulp x \<le> 0"
    using ulp_pos[of x] by (simp add: mult_le_0_iff)
  then show ?thesis
    by (simp add: round64_def)
qed

lemma js_minus_self: "js_minus a a = Finite 0"
  by (simp add: js_minus_def round64_def to_number_def)

lemma exceeds_minus: "0 \<le> c \<Longrightarrow> exceeds (js_minus a b) c \<Longrightarrow> b < a"
proof (rule ccontr)
  assume c: "0 \<le> c" and e: "exceeds (js_minus a b) c" and n: "\<not> b < a"
  then have "round64 (a - b) \<le> 0"
    by (intro round64_nonpos) simp
  with c e show False
    by (auto simp: js_minus_def to_number_def split: if_splits)
qed

lemma number_le_refl: "number_le x x"
  by (cases x) simp_all

lemma number_le_zero: "exceeds x c \<Longrightarrow> 0 \<le> c \<Longrightarrow> number_le (Finite 0) x"
  by (cases x) simp_all

lemma floor_log2: "2 powi k \<le> x \<Longrightarrow> x < 2 powi (k + 1) \<Longrightarrow> \<lfloor>log 2 x\<rfloor> = k"
proof -
  assume a: "2 powi k \<le> x" "x < 2 powi (k + 1)"
  have "(0::real) < 2 powi k" by simp
  with a(1) have p: "0 < x" by linarith
  have 1: "(2::real) powr real_of_int k = 2 powi k"
    by (simp add: powr_real_of_int')
  have "(2::real) powr real_of_int (k + 1) = 2 powi (k + 1)"
    by (rule powr_real_of_int') simp_all
  then have 2: "(2::real) powr (real_of_int k + 1) = 2 powi (k + 1)"
    by simp
  show ?thesis
    using a p by (simp add: floor_log_eq_powr_iff 1 2)
qed

lemma round64_at:
  assumes "2 powi k \<le> \<bar>x\<bar>" "\<bar>x\<bar> < 2 powi (k + 1)" "- 1022 \<le> k"
  shows "round64 x = of_int (round_even (x / 2 powi (k - 52))) * 2 powi (k - 52)"
proof -
  have "(0::real) < 2 powi k" by simp
  with assms(1) have "0 < \<bar>x\<bar>" by linarith
  then have x: "x \<noteq> 0" by simp
  have "\<lfloor>log 2 \<bar>x\<bar>\<rfloor> = k" by (rule floor_log2[OF assms(1,2)])
  then have "ulp x = 2 powi (k - 52)" using assms(3) by (simp add: ulp_def)
  then show ?thesis using x by (simp add: round64_def)
qed

lemma round_even_int: "round_even (of_int n) = n"
  by (simp add: round_even_def)

lemma round_even_half: "even n \<Longrightarrow> round_even (of_int n + 1 / 2) = n"
proof -
  assume e: "even n"
  have f: "\<lfloor>of_int n + 1 / 2 :: real\<rfloor> = n"
    by (simp add: floor_eq_iff)
  show ?thesis unfolding round_even_def f using e by simp
qed

lemma js_minus_3_1: "js_minus 3 1 = Finite 2"
proof -
  have "round64 2 = of_int (round_even (2 / 2 powi (1 - 52))) * 2 powi (1 - 52)"
    by (rule round64_at) simp_all
  also have "(2::real) / 2 powi (1 - 52) = of_int (2 ^ 52)"
    by (simp add: power_int_minus)
  also have "of_int (round_even (of_int (2 ^ 52))) * 2 powi (1 - 52) = (2::real)"
    unfolding round_even_int by (simp add: power_int_minus)
  finally have "round64 2 = 2" .
  then show ?thesis by (simp add: js_minus_def to_number_def)
qed

lemma js_minus_tie: "js_minus (1 / 2 + 1 / 2 ^ 53) (1 / 2 ^ 54) = Finite (1 / 2)"
proof -
  define x :: real where "x = 1 / 2 + 1 / 2 ^ 53 - 1 / 2 ^ 54"
  have b: "2 powi (- 1) \<le> \<bar>x\<bar>" "\<bar>x\<bar> < 2 powi (- 1 + 1)"
    by (simp_all add: x_def power_int_minus)
  have "round64 x = of_int (round_even (x / 2 powi (- 1 - 52))) * 2 powi (- 1 - 52)"
    by (rule round64_at[OF b]) simp
  also have "x / 2 powi (- 1 - 52) = of_int (2 ^ 52) + 1 / 2"
    by (simp add: x_def power_int_minus field_simps)
  also have "round_even (of_int (2 ^ 52) + 1 / 2) = 2 ^ 52"
    by (rule round_even_half) simp
  also have "of_int (2 ^ 52) * 2 powi (- 1 - 52) = (1 / 2 :: real)"
    by (simp add: power_int_minus)
  finally have "round64 x = 1 / 2" .
  then have "js_minus (1 / 2 + 1 / 2 ^ 53) (1 / 2 ^ 54) = to_number (1 / 2)"
    unfolding js_minus_def x_def by (rule arg_cong)
  then show ?thesis by (simp add: to_number_def)
qed

lemma ucs_failed:
  "iceState = ''failed'' \<or> connState = ''failed'' \<Longrightarrow>
   updateConnectionStatus iceState connState s =
     triggerReconnect (s\<lparr>status := ''ICE: '' @ iceState @ '' / CONN: '' @ connState\<rparr>)"
  by (simp add: updateConnectionStatus_def)

lemma ucs_other:
  "iceState \<noteq> ''failed'' \<Longrightarrow> connState \<noteq> ''failed'' \<Longrightarrow>
   updateConnectionStatus iceState connState s =
     s\<lparr>status := ''ICE: '' @ iceState @ '' / CONN: '' @ connState\<rparr>"
  by (simp add: updateConnectionStatus_def)

lemma ucs_armed:
  "reconnectTimeoutRef s \<noteq> None \<Longrightarrow>
   timers (updateConnectionStatus i c s) = timers s \<and>
   reconnectTimeoutRef (updateConnectionStatus i c s) = reconnectTimeoutRef s"
  by (simp add: updateConnectionStatus_def triggerReconnect_def)

lemma timer_inv_one: "timer_inv s \<Longrightarrow> reconnectTimeoutRef s \<noteq> None \<Longrightarrow> length (timers s) = 1"
proof -
  assume "timer_inv s" "reconnectTimeoutRef s \<noteq> None"
  then have "length (map fst (timers s)) = 1"
    by (auto simp: timer_inv_def)
  then show ?thesis by simp
qed

lemma attempts_try_head: "\<exists>xs. attempts (try_catch (try_head oc u n s)) = attempts s @ xs"
  by (cases oc) (simp_all add: try_head_def addTransceiver_def)

lemma attempts_setupWebRTC: "\<exists>xs. attempts (setupWebRTC oc s) = attempts s @ xs"
proof (cases "url (config s) = [] \<or> stream (config s) = []")
  case True
  then show ?thesis by (simp add: setupWebRTC_def)
next
  case False
  from attempts_try_head[of oc "url (config s)" "stream (config s)"
      "drop_session (s\<lparr>status := ''Connecting...'', error := None\<rparr>)"]
  show ?thesis using False by (simp add: setupWebRTC_def)
qed

lemma waiting_run_effect:
  "a < length (attempts s) \<Longrightarrow> waiting a ph (run_effect oc s) = waiting a ph s"
proof -
  assume a: "a < length (attempts s)"
  obtain xs where "attempts (run_effect oc s) = attempts s @ xs"
    using attempts_setupWebRTC[of oc "(cleanup s)\<lparr>effectDeps := Some (deps s)\<rparr>"]
    by (auto simp: run_effect_def)
  with a show ?thesis by (simp add: waiting_def nth_append)
qed

lemma catch_block_timers:
  "timers (catch_block e m) =
     (if reconnectTimeoutRef m = None then timers m @ [(timerSeq m, now m + 2000)] else timers m)"
  by (simp add: catch_block_def triggerReconnect_def)

lemma run_effect_empty:
  "url (config s) = [] \<or> stream (config s) = [] \<Longrightarrow>
   run_effect oc s = (cleanup s)\<lparr>effectDeps := Some (deps s), status := ''Waiting for config''\<rparr>"
  by (auto simp: run_effect_def setupWebRTC_def)

lemma settled_lengths:
  "length (pcs (try_catch (after_offer a r1 s))) = length (pcs s) \<and>
   length (attempts (try_catch (after_offer a r1 s))) = length (attempts s)"
  "length (pcs (try_catch (after_local a r2 s))) = length (pcs s) \<and>
   length (attempts (try_catch (after_local a r2 s))) = length (attempts s)"
  "length (pcs (try_catch (after_fetch a r3 s))) = length (pcs s) \<and>
   length (attempts (try_catch (after_fetch a r3 s))) = length (attempts s)"
  "length (pcs (try_catch (after_text a r4 s))) = length (pcs s) \<and>
   length (attempts (try_catch (after_text a r4 s))) = length (attempts s)"
  "length (pcs (try_catch (after_remote a r5 s))) = length (pcs s) \<and>
   length (attempts (try_catch (after_remote a r5 s))) = length (attempts s)"
  by (simp_all add: after_offer_def after_local_def after_fetch_def after_text_def
      after_remote_def split: sum.splits)

lemma handler_lengths:
  "length (pcs (unmount s)) = length (pcs s) \<and> attempts (unmount s) = attempts s"
  "length (pcs (settingsActionHandler act s)) = length (pcs s) \<and>
   attempts (settingsActionHandler act s) = attempts s"
  "length (pcs (ontrack streams s)) = length (pcs s) \<and> attempts (ontrack streams s) = attempts s"
  "length (pcs (updateConnectionStatus i c s)) = length (pcs s) \<and>
   attempts (updateConnectionStatus i c s) = attempts s"
  "length (pcs (latency_tick s)) = length (pcs s) \<and> attempts (latency_tick s) = attempts s"
  "length (pcs (fire_timer t s)) = length (pcs s) \<and> attempts (fire_timer t s) = attempts s"
  by (simp_all add: unmount_def settingsActionHandler_def ontrack_def
      updateConnectionStatus_def latency_tick_def fire_timer_def timer_callback_def
      triggerReconnect_def
      split: SettingsTreeAction.splits option.splits prod.splits)

lemma empty_step_lengths:
  assumes "url (config s) = [] \<or> stream (config s) = []"
  shows "length (pcs (step e s)) = length (pcs s) \<and>
         length (attempts (step e s)) = length (attempts s)"
proof (cases e)
  case (Render oc)
  then show ?thesis
    by (simp add: render_def run_effect_empty[OF assms])
qed (simp_all add: settled_lengths handler_lengths split: option.splits)

lemma waits_not_waiting: "waits s \<Longrightarrow> ph \<noteq> Finished \<Longrightarrow> \<not> waiting a ph s"
  by (auto simp: waits_def waiting_def list_all_length)

lemma waits_upd [simp]:
  "waits (s\<lparr>reconnectCount := k\<rparr>) = waits s"
  "waits (s\<lparr>reconnectCountRef := k\<rparr>) = waits s"
  "waits (s\<lparr>now := n\<rparr>) = waits s"
  "waits (s\<lparr>videoRef := v\<rparr>) = waits s"
  "waits (s\<lparr>latency := l\<rparr>) = waits s"
  "waits (s\<lparr>mounted := m\<rparr>) = waits s"
  "waits (s\<lparr>effectDeps := d\<rparr>) = waits s"
  "waits (s\<lparr>timers := ts\<rparr>) = waits s"
  "waits (s\<lparr>reconnectTimeoutRef := t\<rparr>) = waits s"
  by (simp_all add: waits_def)

lemma waits_cleanup [simp]: "waits (cleanup s) = waits s"
  by (simp add: waits_def)

lemma waits_step:
  assumes w: "waits s" and e: "\<not> external e"
  shows "waits (step e s) \<and> attempts (step e s) = attempts s \<and>
         requests (step e s) = requests s \<and> length (pcs (step e s)) = length (pcs s)"
proof -
  have c: "url (config s) = [] \<or> stream (config s) = []"
    using w by (simp add: waits_def)
  have st: "status s = ''Waiting for config''"
    using w by (simp add: waits_def)
  have nw: "\<not> waiting a AwaitOffer s" "\<not> waiting a AwaitLocal s" "\<not> waiting a AwaitFetch s"
    "\<not> waiting a AwaitText s" "\<not> waiting a AwaitRemote s" for a
    using waits_not_waiting[OF w] by simp_all
  show ?thesis
  proof (cases e)
    case (Render oc)
    have "waits ((cleanup s)\<lparr>effectDeps := Some (deps s), status := ''Waiting for config''\<rparr>)"
      using w by (simp add: waits_def)
    then show ?thesis
      using Render w by (simp add: render_def run_effect_empty[OF c])
  next
    case (SettingsAction act)
    with e show ?thesis by simp
  next
    case (StateChange k i c)
    with e show ?thesis by simp
  next
    case Unmount
    then show ?thesis using w by (simp add: unmount_def)
  next
    case (TimerFired t)
    then show ?thesis
      using w by (simp add: fire_timer_def timer_callback_def split: option.splits)
  next
    case (Track k streams)
    then show ?thesis
      using w by (simp add: ontrack_def split: option.splits)
  next
    case LatencyTick
    then show ?thesis
      using w by (simp add: latency_tick_def split: option.splits prod.splits)
  next
    case (Playback p r b t)
    then show ?thesis using w by (simp split: option.splits)
  qed (simp_all add: w nw)
qed

lemma waits_run:
  "waits s \<Longrightarrow> list_all (\<lambda>e. \<not> external e) es \<Longrightarrow>
   waits (run es s) \<and> attempts (run es s) = attempts s \<and>
   requests (run es s) = requests s \<and> length (pcs (run es s)) = length (pcs s)"
proof (induction es arbitrary: s)
  case Nil
  then show ?case by simp
next
  case (Cons e es)
  from Cons.prems have e: "\<not> external e" and es: "list_all (\<lambda>e. \<not> external e) es"
    by simp_all
  note st = waits_step[OF Cons.prems(1) e]
  from Cons.IH[OF conjunct1[OF st] es] st show ?case by simp
qed

lemma videoRef_kept:
  "videoRef s \<noteq> None \<Longrightarrow> e \<noteq> Unmount \<Longrightarrow> videoRef (step e s) \<noteq> None"
proof (cases e)
  case LatencyTick
  assume "videoRef s \<noteq> None"
  then show ?thesis
    using LatencyTick by (auto simp: latency_tick_def split: option.splits prod.splits)
qed (auto simp: ontrack_def split: option.splits)

lemma shown_step:
  assumes v: "videoRef s \<noteq> None" and d: "delivered [e] s"
  shows "attached (step e s) = shown [e] (attached s)"
proof (cases e)
  case (Track k streams)
  with d obtain x xs where s: "streams = x # xs" and k: "k < length (pcs s)"
    by (cases streams) simp_all
  show ?thesis
    using v k by (simp add: Track s attached_ontrack)
next
  case Unmount
  with d show ?thesis by simp
qed (use attached_step[of e s] in simp_all)

lemma shown_Cons: "shown (e # es) cur = shown es (shown [e] cur)"
proof (cases e)
  case (Track k streams)
  then show ?thesis by (cases streams) simp_all
qed simp_all

lemma shown_run:
  "videoRef s \<noteq> None \<Longrightarrow> delivered es s \<Longrightarrow> attached (run es s) = shown es (attached s)"
proof (induction es arbitrary: s)
  case Nil
  then show ?case by simp
next
  case (Cons e es)
  from Cons.prems(2) have d1: "delivered [e] s" and d2: "delivered es (step e s)"
    by simp_all
  from d1 have ne: "e \<noteq> Unmount" by auto
  have v: "videoRef (step e s) \<noteq> None"
    by (rule videoRef_kept[OF Cons.prems(1) ne])
  have "attached (run (e # es) s) = shown es (attached (step e s))"
    using Cons.IH[OF v d2] by simp
  also have "\<dots> = shown es (shown [e] (attached s))"
    by (simp add: shown_step[OF Cons.prems(1) d1])
  also have "\<dots> = shown (e # es) (attached s)"
    by (rule shown_Cons[symmetric])
  finally show ?case .
qed

lemma attached_mount: "videoRef (mount p oc) \<noteq> None \<and> attached (mount p oc) = None"
  by (simp add: mount_def attached_def blank_video_def)

lemma shown_no_track: "list_all (\<lambda>e. \<not> is_track e) es \<Longrightarrow> shown es cur = cur"
proof (induction es arbitrary: cur)
  case Nil
  then show ?case by simp
next
  case (Cons e es)
  then show ?case by (cases e) simp_all
qed

lemma shown_append: "shown (es @ es') cur = shown es' (shown es cur)"
proof (induction es arbitrary: cur)
  case Nil
  then show ?case by simp
next
  case (Cons e es)
  show ?case
    using Cons.IH shown_Cons[of e "es @ es'" cur] shown_Cons[of e es cur] by simp
qed

section \<open>The claims\<close>

subsection \<open>The reconnect scheduler is debounced\<close>

text \<open>
  C4. At most one retry timer is armed at any time. In every state the panel reaches
  from its first render by any sequence of events, and after any number of further
  calls of \<open>triggerReconnect\<close>, at most one timer is pending. A call made while the
  reference holds a timer returns the state unchanged, so calling twice is calling once;
  a call made while it holds none arms one timer, 2000 ms ahead. A state-change
  callback that reports a failure, by the ICE state or by the connection state, calls
  the scheduler: afterwards a timer is armed, a new one exactly when none was armed
  before. A second state-change callback that follows it, whatever it reports, leaves
  the pending timers and the reference as the first left them, so that in every
  reachable state the two callbacks together leave exactly one timer pending. A
  state-change callback that reports no failure touches neither the timers nor the
  reference.
\<close>

theorem scheduleRetry_single_timer:
  "length (timers ((triggerReconnect ^^ n) (run es (mount p oc)))) \<le> 1 \<and>
   (reconnectTimeoutRef s \<noteq> None \<longrightarrow> triggerReconnect s = s) \<and>
   triggerReconnect (triggerReconnect s) = triggerReconnect s \<and>
   (reconnectTimeoutRef s = None \<longrightarrow>
      timers (triggerReconnect s) = timers s @ [(timerSeq s, now s + 2000)]) \<and>
   (ice1 = ''failed'' \<or> conn1 = ''failed'' \<longrightarrow>
      reconnectTimeoutRef (updateConnectionStatus ice1 conn1 s) \<noteq> None \<and>
      (reconnectTimeoutRef s = None \<longrightarrow>
         timers (updateConnectionStatus ice1 conn1 s) = timers s @ [(timerSeq s, now s + 2000)]) \<and>
      (reconnectTimeoutRef s \<noteq> None \<longrightarrow>
         timers (updateConnectionStatus ice1 conn1 s) = timers s) \<and>
      timers (updateConnectionStatus ice2 conn2 (updateConnectionStatus ice1 conn1 s)) =
        timers (updateConnectionStatus ice1 conn1 s) \<and>
      reconnectTimeoutRef
          (updateConnectionStatus ice2 conn2 (updateConnectionStatus ice1 conn1 s)) =
        reconnectTimeoutRef (updateConnectionStatus ice1 conn1 s) \<and>
      length (timers (updateConnectionStatus ice2 conn2
                        (updateConnectionStatus ice1 conn1 (run es (mount p oc))))) = 1) \<and>
   (ice1 \<noteq> ''failed'' \<and> conn1 \<noteq> ''failed'' \<longrightarrow>
      timers (updateConnectionStatus ice1 conn1 s) = timers s \<and>
      reconnectTimeoutRef (updateConnectionStatus ice1 conn1 s) = reconnectTimeoutRef s)"
proof -
  let ?r = "run es (mount p oc)"
  have a: "length (timers ((triggerReconnect ^^ n) ?r)) \<le> 1"
    by (rule timer_inv_length, rule timer_inv_iter, rule timer_inv_reachable)
  have b: "reconnectTimeoutRef s \<noteq> None \<longrightarrow> triggerReconnect s = s"
    by (simp add: triggerReconnect_def)
  have c: "triggerReconnect (triggerReconnect s) = triggerReconnect s"
    by (simp add: triggerReconnect_def)
  have d: "reconnectTimeoutRef s = None \<longrightarrow>
      timers (triggerReconnect s) = timers s @ [(timerSeq s, now s + 2000)]"
    by (simp add: triggerReconnect_def)
  have fail: "reconnectTimeoutRef (updateConnectionStatus ice1 conn1 s) \<noteq> None \<and>
      (reconnectTimeoutRef s = None \<longrightarrow>
         timers (updateConnectionStatus ice1 conn1 s) = timers s @ [(timerSeq s, now s + 2000)]) \<and>
      (reconnectTimeoutRef s \<noteq> None \<longrightarrow>
         timers (updateConnectionStatus ice1 conn1 s) = timers s) \<and>
      timers (updateConnectionStatus ice2 conn2 (updateConnectionStatus ice1 conn1 s)) =
        timers (updateConnectionStatus ice1 conn1 s) \<and>
      reconnectTimeoutRef
          (updateConnectionStatus ice2 conn2 (updateConnectionStatus ice1 conn1 s)) =
        reconnectTimeoutRef (updateConnectionStatus ice1 conn1 s) \<and>
      length (timers (updateConnectionStatus ice2 conn2
                        (updateConnectionStatus ice1 conn1 ?r))) = 1"
    if f: "ice1 = ''failed'' \<or> conn1 = ''failed''"
  proof -
    have r: "reconnectTimeoutRef (updateConnectionStatus ice1 conn1 t) \<noteq> None" for t
      by (simp add: ucs_failed[OF f] triggerReconnect_def)
    have t0: "reconnectTimeoutRef s = None \<longrightarrow>
         timers (updateConnectionStatus ice1 conn1 s) = timers s @ [(timerSeq s, now s + 2000)]"
      by (simp add: ucs_failed[OF f] triggerReconnect_def)
    have t1: "reconnectTimeoutRef s \<noteq> None \<longrightarrow>
         timers (updateConnectionStatus ice1 conn1 s) = timers s"
      by (simp add: ucs_armed)
    have inv: "timer_inv (updateConnectionStatus ice2 conn2 (updateConnectionStatus ice1 conn1 ?r))"
      by (intro timer_inv_handlers(4) timer_inv_reachable)
    have "reconnectTimeoutRef
        (updateConnectionStatus ice2 conn2 (updateConnectionStatus ice1 conn1 ?r)) \<noteq> None"
      using ucs_armed[OF r[of ?r], of ice2 conn2] r[of ?r] by simp
    with inv have one: "length (timers (updateConnectionStatus ice2 conn2
                        (updateConnectionStatus ice1 conn1 ?r))) = 1"
      by (rule timer_inv_one)
    show ?thesis
      using r[of s] t0 t1 ucs_armed[OF r[of s], of ice2 conn2] one by blast
  qed
  have calm: "ice1 \<noteq> ''failed'' \<and> conn1 \<noteq> ''failed'' \<longrightarrow>
      timers (updateConnectionStatus ice1 conn1 s) = timers s \<and>
      reconnectTimeoutRef (updateConnectionStatus ice1 conn1 s) = reconnectTimeoutRef s"
    by (simp add: ucs_other)
  from a b c d fail calm show ?thesis by blast
qed

theorem scheduleRetry_single_timer_witness:
  "reconnectTimeoutRef (step (StateChange 0 ''connected'' ''failed'') (mount None SyncOk)) \<noteq> None \<and>
   triggerReconnect (step (StateChange 0 ''connected'' ''failed'') (mount None SyncOk)) =
     step (StateChange 0 ''connected'' ''failed'') (mount None SyncOk) \<and>
   reconnectTimeoutRef (mount None SyncOk) = None \<and>
   timers (triggerReconnect (mount None SyncOk)) = [(0, 2000)] \<and>
   timers (run [StateChange 0 ''connected'' ''failed''] (mount None SyncOk)) = [(0, 2000)] \<and>
   timers (run [StateChange 0 ''connected'' ''failed'', StateChange 0 ''failed'' ''failed'']
             (mount None SyncOk)) = [(0, 2000)] \<and>
   timers (run [StateChange 0 ''failed'' ''connecting'', StateChange 0 ''failed'' ''failed'']
             (mount None SyncOk)) = [(0, 2000)] \<and>
   ''checking'' \<noteq> ''failed'' \<and> ''connecting'' \<noteq> ''failed'' \<and>
   timers (run [StateChange 0 ''checking'' ''connecting''] (mount None SyncOk)) = []"
proof -
  let ?m = "mount None SyncOk"
  let ?s = "step (StateChange 0 ''connected'' ''failed'') ?m"
  have idle: "reconnectTimeoutRef ?m = None" "timers ?m = []" "timerSeq ?m = 0" "now ?m = 0"
    by (simp_all add: eval_defs)
  have len: "0 < length (pcs ?m)"
    by (simp add: eval_defs)
  have l2: "0 < length (pcs (updateConnectionStatus i c ?m))" for i c
    by (simp add: eval_defs)
  note c = scheduleRetry_single_timer[where s = ?m and ?ice1.0 = "''connected''"
      and ?conn1.0 = "''failed''" and ?ice2.0 = "''failed''" and ?conn2.0 = "''failed''"]
  note i = scheduleRetry_single_timer[where s = ?m and ?ice1.0 = "''failed''"
      and ?conn1.0 = "''connecting''" and ?ice2.0 = "''failed''" and ?conn2.0 = "''failed''"]
  note q = scheduleRetry_single_timer[where s = ?m and ?ice1.0 = "''checking''"
      and ?conn1.0 = "''connecting''"]
  have s: "?s = updateConnectionStatus ''connected'' ''failed'' ?m"
    using len by simp
  from c have armed: "reconnectTimeoutRef ?s \<noteq> None"
    unfolding s by blast
  from scheduleRetry_single_timer[where s = ?s] armed
  have noop: "triggerReconnect ?s = ?s" by blast
  from c idle have arm: "timers (triggerReconnect ?m) = [(0, 2000)]"
    by simp
  from c idle have one: "timers (updateConnectionStatus ''connected'' ''failed'' ?m) = [(0, 2000)]"
    by simp
  from c one have two: "timers (updateConnectionStatus ''failed'' ''failed''
      (updateConnectionStatus ''connected'' ''failed'' ?m)) = [(0, 2000)]"
    by simp
  from i idle have one': "timers (updateConnectionStatus ''failed'' ''connecting'' ?m) = [(0, 2000)]"
    by simp
  from i one' have two': "timers (updateConnectionStatus ''failed'' ''failed''
      (updateConnectionStatus ''failed'' ''connecting'' ?m)) = [(0, 2000)]"
    by simp
  from q idle have none: "timers (updateConnectionStatus ''checking'' ''connecting'' ?m) = []"
    by simp
  have r1: "run [StateChange 0 ''connected'' ''failed''] ?m =
      updateConnectionStatus ''connected'' ''failed'' ?m"
    using len by simp
  have r2: "run [StateChange 0 ''connected'' ''failed'', StateChange 0 ''failed'' ''failed''] ?m =
      updateConnectionStatus ''failed'' ''failed''
        (updateConnectionStatus ''connected'' ''failed'' ?m)"
    using len l2 by simp
  have r3: "run [StateChange 0 ''failed'' ''connecting'', StateChange 0 ''failed'' ''failed''] ?m =
      updateConnectionStatus ''failed'' ''failed''
        (updateConnectionStatus ''failed'' ''connecting'' ?m)"
    using len l2 by simp
  have r4: "run [StateChange 0 ''checking'' ''connecting''] ?m =
      updateConnectionStatus ''checking'' ''connecting'' ?m"
    using len by simp
  have ne: "''checking'' \<noteq> ''failed''" "''connecting'' \<noteq> ''failed''"
    by simp_all
  show ?thesis
    unfolding r1 r2 r3 r4 by (intro conjI armed noop idle(1) arm one two two' ne none)
qed

subsection \<open>Teardown\<close>

text \<open>
  C9. Teardown is idempotent. The cleanup of the WebRTC effect has no failing branch;
  running it twice gives the state of running it once (and so does unmounting twice);
  on a panel that holds neither a connection nor a timer it changes nothing. After it,
  the timer reference and the connection reference are empty, the connection the
  reference held has been closed, and, in every state the panel reaches from its first
  render, no timer is pending.
\<close>

theorem teardown_idempotent:
  "cleanup (cleanup s) = cleanup s \<and>
   unmount (unmount s) = unmount s \<and>
   (pcRef s = None \<and> reconnectTimeoutRef s = None \<longrightarrow> cleanup s = s) \<and>
   reconnectTimeoutRef (cleanup s) = None \<and>
   pcRef (cleanup s) = None \<and>
   (pcRef s = Some k \<and> k < length (pcs s) \<longrightarrow> pc_closed (pcs (cleanup s) ! k)) \<and>
   timers (cleanup (run es (mount p oc))) = []"
proof -
  have "cleanup (cleanup s) = cleanup s"
    by (rule cleanup_idle) simp_all
  moreover have "unmount (unmount s) = unmount s"
    by (simp add: unmount_def)
  moreover have "timers (cleanup (run es (mount p oc))) = []"
    by (rule timers_cleanup) (rule timer_inv_reachable)
  ultimately show ?thesis
    by (simp add: cleanup_idle cleanup_closes)
qed

theorem teardown_idempotent_witness:
  "pcRef (mount (Some \<lparr>p_url = Some [], p_stream = None\<rparr>) SyncOk) = None \<and>
   reconnectTimeoutRef (mount (Some \<lparr>p_url = Some [], p_stream = None\<rparr>) SyncOk) = None \<and>
   cleanup (mount (Some \<lparr>p_url = Some [], p_stream = None\<rparr>) SyncOk) =
     mount (Some \<lparr>p_url = Some [], p_stream = None\<rparr>) SyncOk \<and>
   pcRef (mount None SyncOk) = Some 0 \<and> 0 < length (pcs (mount None SyncOk)) \<and>
   pc_closed (pcs (cleanup (mount None SyncOk)) ! 0)"
proof -
  have a: "pcRef (mount (Some \<lparr>p_url = Some [], p_stream = None\<rparr>) SyncOk) = None"
          "reconnectTimeoutRef (mount (Some \<lparr>p_url = Some [], p_stream = None\<rparr>) SyncOk) = None"
    by (simp_all add: eval_defs)
  have b: "pcRef (mount None SyncOk) = Some 0" "0 < length (pcs (mount None SyncOk))"
    by (simp_all add: eval_defs)
  from a b teardown_idempotent[of "mount (Some \<lparr>p_url = Some [], p_stream = None\<rparr>) SyncOk"]
    teardown_idempotent[of "mount None SyncOk" 0]
  show ?thesis by blast
qed

subsection \<open>Waiting for configuration\<close>

text \<open>
  C2, as stated, fails. The claim says that under every configuration with an empty
  url or stream the controller performs no negotiation step and its status is the
  waiting text. A call of \<open>setupWebRTC\<close> suspended under the earlier configuration
  goes on. Below, the request of the first attempt is in flight when the url is set to
  the empty string; the effect runs and the status is the waiting text; then the
  response arrives, not a success: with the url still empty the status becomes the
  retry text and a retry timer is armed. In the second run the url is emptied while
  the first attempt waits for its offer; when the offer and the commit of the local
  description are settled afterwards, the attempt issues its request, to the url it
  captured, while the url of the configuration is empty.
\<close>

theorem suspended_call_counterexample:
  "url (config (run [OfferSettled 0 (Inr ''offer''), LocalSettled 0 (Inr (Some ''offer'')),
       SettingsAction (Update [''general'', ''url''] ''''), Render SyncOk]
       (mount None SyncOk))) = '''' \<and>
   status (run [OfferSettled 0 (Inr ''offer''), LocalSettled 0 (Inr (Some ''offer'')),
       SettingsAction (Update [''general'', ''url''] ''''), Render SyncOk]
       (mount None SyncOk)) = ''Waiting for config'' \<and>
   url (config (run [OfferSettled 0 (Inr ''offer''), LocalSettled 0 (Inr (Some ''offer'')),
       SettingsAction (Update [''general'', ''url''] ''''), Render SyncOk,
       FetchSettled 0 (Inr \<lparr>ok = False, statusText = ''Not Found''\<rparr>)]
       (mount None SyncOk))) = '''' \<and>
   status (run [OfferSettled 0 (Inr ''offer''), LocalSettled 0 (Inr (Some ''offer'')),
       SettingsAction (Update [''general'', ''url''] ''''), Render SyncOk,
       FetchSettled 0 (Inr \<lparr>ok = False, statusText = ''Not Found''\<rparr>)]
       (mount None SyncOk)) = ''Retrying in 2s...'' \<and>
   timers (run [OfferSettled 0 (Inr ''offer''), LocalSettled 0 (Inr (Some ''offer'')),
       SettingsAction (Update [''general'', ''url''] ''''), Render SyncOk,
       FetchSettled 0 (Inr \<lparr>ok = False, statusText = ''Not Found''\<rparr>)]
       (mount None SyncOk)) = [(0, 2000)] \<and>
   url (config (run [SettingsAction (Update [''general'', ''url''] ''''), Render SyncOk,
       OfferSettled 0 (Inr ''offer''), LocalSettled 0 (Inr (Some ''offer''))]
       (mount None SyncOk))) = '''' \<and>
   requests (run [SettingsAction (Update [''general'', ''url''] ''''), Render SyncOk]
       (mount None SyncOk)) = [] \<and>
   requests (run [SettingsAction (Update [''general'', ''url''] ''''), Render SyncOk,
       OfferSettled 0 (Inr ''offer''), LocalSettled 0 (Inr (Some ''offer''))]
       (mount None SyncOk)) =
     [\<lparr>r_url = ''http://localhost:1984/api/webrtc?src=cam1'', r_method = ''POST'',
       r_body = Some ''offer''\<rparr>]"
  by (simp add: eval_defs)

text \<open>
  C2, amended. With an empty url or an empty stream, \<open>setupWebRTC\<close> only sets the
  status to the waiting text, and a run of the effect (the cleanup, then
  \<open>setupWebRTC\<close>) constructs no connection, suspends no new call (so no offer is
  requested), issues no request, holds no connection and no timer afterwards, and
  leaves the status at the waiting text; no event of the panel adds a connection or a
  call while a field is empty. When moreover no call of \<open>setupWebRTC\<close> is suspended
  and the status is the waiting text, the controller stays so, with the same calls,
  the same requests and as many connections, through every sequence of events that
  neither edits the configuration nor reports a connection state. A call suspended
  under an earlier configuration is not cancelled by the change: what it does when it
  resumes is the subject of C6.
\<close>

theorem empty_config_waits:
  "(url (config s) = [] \<or> stream (config s) = [] \<longrightarrow>
      setupWebRTC oc s = s\<lparr>status := ''Waiting for config''\<rparr> \<and>
      status (run_effect oc s) = ''Waiting for config'' \<and>
      pcRef (run_effect oc s) = None \<and>
      length (pcs (run_effect oc s)) = length (pcs s) \<and>
      attempts (run_effect oc s) = attempts s \<and>
      requests (run_effect oc s) = requests s \<and>
      reconnectTimeoutRef (run_effect oc s) = None \<and>
      length (pcs (step e s)) = length (pcs s) \<and>
      length (attempts (step e s)) = length (attempts s)) \<and>
   (waits s \<and> list_all (\<lambda>e. \<not> external e) es \<longrightarrow>
      waits (run es s) \<and>
      attempts (run es s) = attempts s \<and>
      requests (run es s) = requests s \<and>
      length (pcs (run es s)) = length (pcs s))"
proof -
  have one: "setupWebRTC oc s = s\<lparr>status := ''Waiting for config''\<rparr> \<and>
      status (run_effect oc s) = ''Waiting for config'' \<and>
      pcRef (run_effect oc s) = None \<and>
      length (pcs (run_effect oc s)) = length (pcs s) \<and>
      attempts (run_effect oc s) = attempts s \<and>
      requests (run_effect oc s) = requests s \<and>
      reconnectTimeoutRef (run_effect oc s) = None \<and>
      length (pcs (step e s)) = length (pcs s) \<and>
      length (attempts (step e s)) = length (attempts s)"
    if c: "url (config s) = [] \<or> stream (config s) = []"
  proof -
    have "setupWebRTC oc s = s\<lparr>status := ''Waiting for config''\<rparr>"
      using c by (auto simp: setupWebRTC_def)
    then show ?thesis
      using empty_step_lengths[OF c, of e] by (simp add: run_effect_empty[OF c])
  qed
  from one waits_run[of s es] show ?thesis by blast
qed

theorem empty_config_waits_witness:
  "url (config (step (SettingsAction (Update [''general'', ''url''] '''')) (mount None SyncOk))) = '''' \<and>
   status (run_effect SyncOk
     (step (SettingsAction (Update [''general'', ''url''] '''')) (mount None SyncOk))) =
     ''Waiting for config'' \<and>
   length (pcs (run_effect SyncOk
     (step (SettingsAction (Update [''general'', ''url''] '''')) (mount None SyncOk)))) = 1 \<and>
   map a_phase (attempts (run_effect SyncOk
     (step (SettingsAction (Update [''general'', ''url''] '''')) (mount None SyncOk)))) =
     [AwaitOffer] \<and>
   requests (run_effect SyncOk
     (step (SettingsAction (Update [''general'', ''url''] '''')) (mount None SyncOk))) = [] \<and>
   length (pcs (step (Render SyncOk)
     (step (SettingsAction (Update [''general'', ''url''] '''')) (mount None SyncOk)))) = 1 \<and>
   waits (run [OfferSettled 0 (Inl (JsError ''boom'')),
               SettingsAction (Update [''general'', ''url''] ''''), Render SyncOk]
            (mount None SyncOk)) \<and>
   list_all (\<lambda>e. \<not> external e)
     [ReconnectClick, Render SyncOk, Advance 3000, TimerFired 0, RemoteSettled 0 (Inr ())] \<and>
   status (run [ReconnectClick, Render SyncOk, Advance 3000, TimerFired 0, RemoteSettled 0 (Inr ())]
     (run [OfferSettled 0 (Inl (JsError ''boom'')),
           SettingsAction (Update [''general'', ''url''] ''''), Render SyncOk]
        (mount None SyncOk))) = ''Waiting for config'' \<and>
   requests (run [ReconnectClick, Render SyncOk, Advance 3000, TimerFired 0, RemoteSettled 0 (Inr ())]
     (run [OfferSettled 0 (Inl (JsError ''boom'')),
           SettingsAction (Update [''general'', ''url''] ''''), Render SyncOk]
        (mount None SyncOk))) = [] \<and>
   length (pcs (run [ReconnectClick, Render SyncOk, Advance 3000, TimerFired 0,
                     RemoteSettled 0 (Inr ())]
     (run [OfferSettled 0 (Inl (JsError ''boom'')),
           SettingsAction (Update [''general'', ''url''] ''''), Render SyncOk]
        (mount None SyncOk)))) = 1"
proof -
  let ?m = "mount None SyncOk"
  let ?s = "step (SettingsAction (Update [''general'', ''url''] '''')) ?m"
  let ?q = "run [OfferSettled 0 (Inl (JsError ''boom'')),
               SettingsAction (Update [''general'', ''url''] ''''), Render SyncOk] ?m"
  let ?es = "[ReconnectClick, Render SyncOk, Advance 3000, TimerFired 0, RemoteSettled 0 (Inr ())]"
  have c: "url (config ?s) = ''''" "length (pcs ?s) = 1" "map a_phase (attempts ?s) = [AwaitOffer]"
    "requests ?s = []"
    by (simp_all add: eval_defs)
  have q: "waits ?q" "requests ?q = []" "length (pcs ?q) = 1"
    by (simp_all add: waits_def eval_defs)
  have x: "list_all (\<lambda>e. \<not> external e) ?es"
    by simp
  from c(1) have c': "url (config ?s) = [] \<or> stream (config ?s) = []"
    by simp
  from empty_config_waits[where s = ?s and oc = SyncOk and e = "Render SyncOk"] c'
  have 1: "status (run_effect SyncOk ?s) = ''Waiting for config''"
    and 2: "length (pcs (run_effect SyncOk ?s)) = length (pcs ?s)"
    and 3: "attempts (run_effect SyncOk ?s) = attempts ?s"
    and 4: "requests (run_effect SyncOk ?s) = requests ?s"
    and 5: "length (pcs (step (Render SyncOk) ?s)) = length (pcs ?s)"
    by blast+
  from empty_config_waits[where s = ?q and es = ?es] q(1) x
  have 6: "waits (run ?es ?q)"
    and 7: "requests (run ?es ?q) = requests ?q"
    and 8: "length (pcs (run ?es ?q)) = length (pcs ?q)"
    by blast+
  from 6 have 9: "status (run ?es ?q) = ''Waiting for config''"
    by (simp add: waits_def)
  show ?thesis
    by (intro conjI c(1) 1 2[unfolded c(2)] q(1) x 9 7[unfolded q(2)] 8[unfolded q(3)]
        5[unfolded c(2)]) (simp_all only: 3 4 c(3) c(4))
qed

subsection \<open>The initial configuration\<close>

text \<open>
  C10. On activation the configuration is the persisted partial configuration spread
  over the defaults: a field absent from the persisted state takes its default, a field
  present keeps its persisted value. With no persisted state, or with an empty object,
  the configuration is the default one, both fields are non-empty, and the first run of
  \<open>setupWebRTC\<close> does not wait: when the platform calls return, the status is
  the connecting text, a connection has been constructed and is held, and one call is
  suspended at its request for an offer.
\<close>

theorem initial_config_defaults:
  "config (mount p oc) = spread DEFAULT_CONFIG p \<and>
   spread DEFAULT_CONFIG None = \<lparr>url = ''http://localhost:1984'', stream = ''cam1''\<rparr> \<and>
   spread DEFAULT_CONFIG (Some \<lparr>p_url = None, p_stream = None\<rparr>) =
     \<lparr>url = ''http://localhost:1984'', stream = ''cam1''\<rparr> \<and>
   url (spread DEFAULT_CONFIG (Some \<lparr>p_url = None, p_stream = n\<rparr>)) = ''http://localhost:1984'' \<and>
   stream (spread DEFAULT_CONFIG (Some \<lparr>p_url = u, p_stream = None\<rparr>)) = ''cam1'' \<and>
   url (spread DEFAULT_CONFIG (Some \<lparr>p_url = Some u', p_stream = n\<rparr>)) = u' \<and>
   stream (spread DEFAULT_CONFIG (Some \<lparr>p_url = u, p_stream = Some n'\<rparr>)) = n' \<and>
   mount (Some \<lparr>p_url = None, p_stream = None\<rparr>) oc = mount None oc \<and>
   status (mount None SyncOk) = ''Connecting...'' \<and>
   pcRef (mount None SyncOk) = Some 0 \<and>
   map pc_closed (pcs (mount None SyncOk)) = [False] \<and>
   attempts (mount None SyncOk) =
     [\<lparr>a_pc = 0, a_url = ''http://localhost:1984'', a_stream = ''cam1'', a_phase = AwaitOffer\<rparr>] \<and>
   status (mount None oc) \<noteq> ''Waiting for config''"
proof -
  have 1: "config (mount p oc) = spread DEFAULT_CONFIG p"
    by (simp add: mount_def)
  have 2: "mount (Some \<lparr>p_url = None, p_stream = None\<rparr>) oc = mount None oc"
    by (simp add: mount_def spread_def DEFAULT_CONFIG_def)
  have 3: "status (mount None oc) \<noteq> ''Waiting for config''"
    by (cases oc) (simp_all add: eval_defs)
  have 4: "status (mount None SyncOk) = ''Connecting...''" "pcRef (mount None SyncOk) = Some 0"
     "map pc_closed (pcs (mount None SyncOk)) = [False]"
     "attempts (mount None SyncOk) =
     [\<lparr>a_pc = 0, a_url = ''http://localhost:1984'', a_stream = ''cam1'', a_phase = AwaitOffer\<rparr>]"
    by (simp_all add: eval_defs)
  show ?thesis using 1 2 3 4 by (simp add: spread_def DEFAULT_CONFIG_def)
qed

subsection \<open>The latency monitor\<close>

text \<open>
  C7, as stated, fails. The claim says that a sample is skipped while the decoder has
  not reached the ready state of enough data to play through, which is state 4. The
  callback returns early only below state 3. Below, playback is not paused, the ready
  state is 3, the last buffered range ends at 3 and the current position is 1: the
  callback reports a drift of 2 and sets the current position to 3.
\<close>

theorem ready_state_counterexample:
  "\<not> paused \<lparr>srcObject = Some 1, paused = False, readyState = HAVE_FUTURE_DATA,
              buffered = [(0, 3)], currentTime = 1\<rparr> \<and>
   readyState \<lparr>srcObject = Some 1, paused = False, readyState = HAVE_FUTURE_DATA,
               buffered = [(0, 3)], currentTime = 1\<rparr> < HAVE_ENOUGH_DATA \<and>
   sample \<lparr>srcObject = Some 1, paused = False, readyState = HAVE_FUTURE_DATA,
           buffered = [(0, 3)], currentTime = 1\<rparr> =
     (\<lparr>srcObject = Some 1, paused = False, readyState = HAVE_FUTURE_DATA,
       buffered = [(0, 3)], currentTime = 3\<rparr>, Some (Finite 2))"
  by (simp add: sample_def drift_def trailing_edge_def js_minus_3_1 HAVE_FUTURE_DATA_def
      HAVE_ENOUGH_DATA_def)

text \<open>
  C7, amended. Each run of the interval callback (scheduled every 500 ms) is skipped
  when playback is paused or the ready state is below 3 (future data), and does nothing
  when no range is buffered. Otherwise the value handed to the display is the binary64
  difference of the end of the last buffered range and the current position, and
  exactly when that value exceeds 0.5 the current position is set to that end, which
  then lies ahead of the old position and leaves a recomputed drift of 0. The callback
  writes nothing of the element but the current position (it neither pauses nor slows
  playback), never moves the position backwards, and never increases the drift.
\<close>

theorem latency_sample:
  "(paused v \<or> readyState v < HAVE_FUTURE_DATA \<longrightarrow> sample v = (v, None)) \<and>
   (buffered v = [] \<longrightarrow> sample v = (v, None)) \<and>
   (\<not> paused v \<and> HAVE_FUTURE_DATA \<le> readyState v \<and> buffered v \<noteq> [] \<longrightarrow>
      snd (sample v) = Some (js_minus (snd (last (buffered v))) (currentTime v)) \<and>
      (exceeds (js_minus (snd (last (buffered v))) (currentTime v)) (1 / 2) \<longrightarrow>
         fst (sample v) = v\<lparr>currentTime := snd (last (buffered v))\<rparr> \<and>
         currentTime v < snd (last (buffered v)) \<and>
         drift (fst (sample v)) = Finite 0) \<and>
      (\<not> exceeds (js_minus (snd (last (buffered v))) (currentTime v)) (1 / 2) \<longrightarrow>
         fst (sample v) = v)) \<and>
   fst (sample v) = v\<lparr>currentTime := currentTime (fst (sample v))\<rparr> \<and>
   currentTime v \<le> currentTime (fst (sample v)) \<and>
   number_le (drift (fst (sample v))) (drift v)"
proof -
  let ?d = "js_minus (snd (last (buffered v))) (currentTime v)"
  consider (skipped) "paused v \<or> readyState v < 3"
    | (unbuffered) "\<not> (paused v \<or> readyState v < 3)" "buffered v = []"
    | (seek) "\<not> (paused v \<or> readyState v < 3)" "buffered v \<noteq> []" "exceeds ?d (1 / 2)"
    | (keep) "\<not> (paused v \<or> readyState v < 3)" "buffered v \<noteq> []" "\<not> exceeds ?d (1 / 2)"
    by blast
  then show ?thesis
  proof cases
    case skipped
    then have "sample v = (v, None)"
      by (simp add: sample_def)
    with skipped show ?thesis
      by (auto simp: HAVE_FUTURE_DATA_def number_le_refl)
  next
    case unbuffered
    then have "sample v = (v, None)"
      by (simp add: sample_def)
    with unbuffered show ?thesis
      by (auto simp: HAVE_FUTURE_DATA_def number_le_refl)
  next
    case seek
    then have s: "sample v = (v\<lparr>currentTime := snd (last (buffered v))\<rparr>, Some ?d)"
      by (simp add: sample_def drift_def trailing_edge_def)
    have z: "drift (v\<lparr>currentTime := snd (last (buffered v))\<rparr>) = Finite 0"
      by (simp add: drift_def trailing_edge_def js_minus_self)
    have d: "drift v = ?d"
      by (simp add: drift_def trailing_edge_def)
    have f: "currentTime v < snd (last (buffered v))"
      by (rule exceeds_minus[OF _ seek(3)]) simp
    have l: "number_le (Finite 0) ?d"
      by (rule number_le_zero[OF seek(3)]) simp
    show ?thesis
      using seek f l by (simp add: s z d HAVE_FUTURE_DATA_def)
  next
    case keep
    then have "sample v = (v, Some ?d)"
      by (simp add: sample_def drift_def trailing_edge_def)
    with keep show ?thesis
      by (simp add: HAVE_FUTURE_DATA_def number_le_refl)
  qed
qed

theorem latency_sample_witness:
  "\<not> paused \<lparr>srcObject = Some 1, paused = False, readyState = 3, buffered = [(0, 3)], currentTime = 1\<rparr> \<and>
   HAVE_FUTURE_DATA \<le> 3 \<and>
   exceeds (js_minus 3 1) (1 / 2) \<and>
   sample \<lparr>srcObject = Some 1, paused = False, readyState = 3, buffered = [(0, 3)], currentTime = 1\<rparr> =
     (\<lparr>srcObject = Some 1, paused = False, readyState = 3, buffered = [(0, 3)], currentTime = 3\<rparr>,
      Some (Finite 2)) \<and>
   drift (fst (sample \<lparr>srcObject = Some 1, paused = False, readyState = 3, buffered = [(0, 3)],
                       currentTime = 1\<rparr>)) = Finite 0 \<and>
   \<not> exceeds (js_minus (1 / 2 + 1 / 2 ^ 53) (1 / 2 ^ 54)) (1 / 2) \<and>
   sample \<lparr>srcObject = Some 1, paused = False, readyState = 4,
           buffered = [(0, 1 / 2 + 1 / 2 ^ 53)], currentTime = 1 / 2 ^ 54\<rparr> =
     (\<lparr>srcObject = Some 1, paused = False, readyState = 4,
       buffered = [(0, 1 / 2 + 1 / 2 ^ 53)], currentTime = 1 / 2 ^ 54\<rparr>, Some (Finite (1 / 2))) \<and>
   sample \<lparr>srcObject = Some 1, paused = True, readyState = 4, buffered = [(0, 3)], currentTime = 1\<rparr> =
     (\<lparr>srcObject = Some 1, paused = True, readyState = 4, buffered = [(0, 3)], currentTime = 1\<rparr>, None) \<and>
   2 < HAVE_FUTURE_DATA \<and>
   sample \<lparr>srcObject = Some 1, paused = False, readyState = 2, buffered = [(0, 3)], currentTime = 1\<rparr> =
     (\<lparr>srcObject = Some 1, paused = False, readyState = 2, buffered = [(0, 3)], currentTime = 1\<rparr>, None) \<and>
   sample \<lparr>srcObject = Some 1, paused = False, readyState = 4, buffered = [], currentTime = 1\<rparr> =
     (\<lparr>srcObject = Some 1, paused = False, readyState = 4, buffered = [], currentTime = 1\<rparr>, None)"
proof -
  let ?v = "\<lambda>p r b t. \<lparr>srcObject = Some (1::nat), paused = p, readyState = r, buffered = b, currentTime = t\<rparr>"
  have h: "HAVE_FUTURE_DATA \<le> 3" "2 < HAVE_FUTURE_DATA" "HAVE_FUTURE_DATA \<le> 4"
    by (simp_all add: HAVE_FUTURE_DATA_def)
  have x: "exceeds (js_minus 3 1) (1 / 2)"
    by (simp add: js_minus_3_1)
  have y: "\<not> exceeds (js_minus (1 / 2 + 1 / 2 ^ 53) (1 / 2 ^ 54)) (1 / 2)"
    using js_minus_tie by simp
  let ?a = "?v False 3 [(0, 3)] 1"
  let ?b = "?v False 4 [(0, 1 / 2 + 1 / 2 ^ 53)] (1 / 2 ^ 54)"
  have pa: "\<not> paused ?a \<and> HAVE_FUTURE_DATA \<le> readyState ?a \<and> buffered ?a \<noteq> []"
    using h(1) by simp
  have xa: "exceeds (js_minus (snd (last (buffered ?a))) (currentTime ?a)) (1 / 2)"
    using x by simp
  from latency_sample[of ?a] pa xa
  have a1: "fst (sample ?a) = ?a\<lparr>currentTime := snd (last (buffered ?a))\<rparr>"
    and a2: "snd (sample ?a) = Some (js_minus (snd (last (buffered ?a))) (currentTime ?a))"
    and a3: "drift (fst (sample ?a)) = Finite 0"
    by blast+
  have pb: "\<not> paused ?b \<and> HAVE_FUTURE_DATA \<le> readyState ?b \<and> buffered ?b \<noteq> []"
    using h(3) by simp
  have xb: "\<not> exceeds (js_minus (snd (last (buffered ?b))) (currentTime ?b)) (1 / 2)"
    using y by simp
  from latency_sample[of ?b] pb xb
  have b1: "fst (sample ?b) = ?b"
    and b2: "snd (sample ?b) = Some (js_minus (snd (last (buffered ?b))) (currentTime ?b))"
    by blast+
  have sa: "sample ?a = (?v False 3 [(0, 3)] 3, Some (Finite 2))"
    using a1 a2 by (simp add: prod_eq_iff js_minus_3_1)
  have sb: "sample ?b = (?b, Some (Finite (1 / 2)))"
    using b1 b2 js_minus_tie by (simp add: prod_eq_iff)
  have c: "sample (?v True 4 [(0, 3)] 1) = (?v True 4 [(0, 3)] 1, None)"
    using latency_sample[of "?v True 4 [(0, 3)] 1"] by simp
  have d: "sample (?v False 2 [(0, 3)] 1) = (?v False 2 [(0, 3)] 1, None)"
    using latency_sample[of "?v False 2 [(0, 3)] 1"] h(2) by simp
  have e: "sample (?v False 4 [] 1) = (?v False 4 [] 1, None)"
    using latency_sample[of "?v False 4 [] 1"] by simp
  have p: "\<not> paused (?v False 3 [(0, 3)] 1)"
    by simp
  show ?thesis
    by (intro conjI p h(1) x sa a3 y sb c h(2) d e)
qed

subsection \<open>The signaling exchange\<close>

text \<open>
  C8. The signaling exchange of one attempt, from the commit of the local description
  on, issues exactly one request, whatever the platform answers afterwards: a POST to
  the base url followed by \<^verbatim>\<open>/api/webrtc?src=\<close> and the stream name, with the
  local description as its body; no other event of the panel issues a request. The
  base url loses one trailing slash and is otherwise unchanged. Given a response, the
  exchange throws if and only if the response is not a success, and the error thrown
  carries the status text; on a success, the text of the body is what is handed to the
  connection as the remote answer.
\<close>

theorem signaling_exchange:
  "(waiting a AwaitLocal s \<longrightarrow>
      requests (run [LocalSettled a (Inr sdp), FetchSettled a rf, TextSettled a rt,
                     RemoteSettled a rr] s) =
        requests s @
          [\<lparr>r_url = endpoint_of (a_url (attempts s ! a)) @ ''/api/webrtc?src='' @
                     a_stream (attempts s ! a),
            r_method = ''POST'', r_body = sdp\<rparr>]) \<and>
   (requests (step e s) = requests s \<or>
      (\<exists>b d. e = LocalSettled b (Inr d) \<and> waiting b AwaitLocal s)) \<and>
   endpoint_of (u @ ''/'') = u \<and>
   (u = [] \<or> last u \<noteq> CHR ''/'' \<longrightarrow> endpoint_of u = u) \<and>
   after_fetch a (Inr resp) s =
     (if ok resp then Normal (set_phase a AwaitText s)
      else Thrown (JsError (''Failed to connect to go2rtc: '' @ statusText resp))
             (set_phase a Finished s)) \<and>
   (\<exists>x m. after_fetch a (Inr resp) s = Thrown x m) = (\<not> ok resp) \<and>
   (waiting a AwaitFetch (run es (mount p oc)) \<and> ok resp \<longrightarrow>
      setRemote_arg
        (pcs (run [FetchSettled a (Inr resp), TextSettled a (Inr body)] (run es (mount p oc))) !
           a_pc (attempts (run es (mount p oc)) ! a)) = Some body \<and>
      waiting a AwaitRemote
        (run [FetchSettled a (Inr resp), TextSettled a (Inr body)] (run es (mount p oc))))"
proof -
  have one: "waiting a AwaitLocal s \<longrightarrow>
      requests (run [LocalSettled a (Inr sdp), FetchSettled a rf, TextSettled a rt,
                     RemoteSettled a rr] s) =
        requests s @
          [\<lparr>r_url = endpoint_of (a_url (attempts s ! a)) @ ''/api/webrtc?src='' @
                     a_stream (attempts s ! a),
            r_method = ''POST'', r_body = sdp\<rparr>]"
    by (simp add: signaling_request_def)
  have only: "requests (step e s) = requests s \<or>
      (\<exists>b d. e = LocalSettled b (Inr d) \<and> waiting b AwaitLocal s)"
    using requests_step[of e s] by blast
  have resp: "after_fetch a (Inr resp) s =
     (if ok resp then Normal (set_phase a AwaitText s)
      else Thrown (JsError (''Failed to connect to go2rtc: '' @ statusText resp))
             (set_phase a Finished s))"
    by (simp add: after_fetch_def)
  have iff: "(\<exists>x m. after_fetch a (Inr resp) s = Thrown x m) = (\<not> ok resp)"
    by (simp add: after_fetch_def)
  have answer: "setRemote_arg
        (pcs (run [FetchSettled a (Inr resp), TextSettled a (Inr body)] (run es (mount p oc))) !
           a_pc (attempts (run es (mount p oc)) ! a)) = Some body \<and>
      waiting a AwaitRemote
        (run [FetchSettled a (Inr resp), TextSettled a (Inr body)] (run es (mount p oc)))"
    if w: "waiting a AwaitFetch (run es (mount p oc))" and k: "ok resp"
  proof -
    let ?s = "run es (mount p oc)"
    from w have a: "a < length (attempts ?s)" by (simp add: waiting_def)
    have v: "a_pc (attempts ?s ! a) < length (pcs ?s)"
      by (rule attempt_pc_valid[OF handles_inv_reachable a])
    let ?t = "set_phase a AwaitText ?s"
    have f: "step (FetchSettled a (Inr resp)) ?s = ?t"
      using w k by (simp add: after_fetch_def)
    have w': "waiting a AwaitText ?t"
      using a by (simp add: waiting_set_phase)
    have pc: "a_pc (attempts ?t ! a) = a_pc (attempts ?s ! a)"
      using a by (simp add: set_phase_def)
    have g: "step (TextSettled a (Inr body)) ?t =
        set_phase a AwaitRemote
          (?t\<lparr>pcs := (pcs ?t)[a_pc (attempts ?s ! a) :=
             (pcs ?t ! a_pc (attempts ?s ! a))\<lparr>setRemote_arg := Some body\<rparr>]\<rparr>)"
      using w' by (simp add: after_text_def pc)
    have r: "run [FetchSettled a (Inr resp), TextSettled a (Inr body)] ?s =
        step (TextSettled a (Inr body)) ?t"
      by (simp only: run.simps f)
    have l: "a < length (attempts (?t\<lparr>pcs := (pcs ?t)[a_pc (attempts ?s ! a) :=
             (pcs ?t ! a_pc (attempts ?s ! a))\<lparr>setRemote_arg := Some body\<rparr>]\<rparr>))"
      using a by simp
    show ?thesis
      unfolding r g using v a by (simp add: waiting_def set_phase_def)
  qed
  from one only resp iff answer show ?thesis
    by (simp add: endpoint_of_slash endpoint_of_other)
qed

theorem signaling_exchange_witness:
  "waiting 0 AwaitLocal
     (run [OfferSettled 0 (Inr ''v=0'')]
        (mount (Some \<lparr>p_url = Some ''http://h:1984/'', p_stream = None\<rparr>) SyncOk)) \<and>
   requests
     (run [LocalSettled 0 (Inr (Some ''v=0'')),
           FetchSettled 0 (Inr \<lparr>ok = True, statusText = ''OK''\<rparr>),
           TextSettled 0 (Inr ''answer''), RemoteSettled 0 (Inr ())]
        (run [OfferSettled 0 (Inr ''v=0'')]
           (mount (Some \<lparr>p_url = Some ''http://h:1984/'', p_stream = None\<rparr>) SyncOk))) =
     [\<lparr>r_url = ''http://h:1984/api/webrtc?src=cam1'', r_method = ''POST'',
       r_body = Some ''v=0''\<rparr>] \<and>
   waiting 0 AwaitFetch
     (run [OfferSettled 0 (Inr ''v=0''), LocalSettled 0 (Inr (Some ''v=0''))]
        (mount (Some \<lparr>p_url = Some ''http://h:1984/'', p_stream = None\<rparr>) SyncOk)) \<and>
   setRemote_arg
     (pcs (run [FetchSettled 0 (Inr \<lparr>ok = True, statusText = ''OK''\<rparr>),
                TextSettled 0 (Inr ''answer'')]
             (run [OfferSettled 0 (Inr ''v=0''), LocalSettled 0 (Inr (Some ''v=0''))]
                (mount (Some \<lparr>p_url = Some ''http://h:1984/'', p_stream = None\<rparr>) SyncOk))) ! 0) =
     Some ''answer'' \<and>
   last ''http://h:1984'' \<noteq> CHR ''/'' \<and>
   endpoint_of ''http://h:1984'' = ''http://h:1984''"
proof -
  let ?m = "mount (Some \<lparr>p_url = Some ''http://h:1984/'', p_stream = None\<rparr>) SyncOk"
  let ?s = "run [OfferSettled 0 (Inr ''v=0'')] ?m"
  let ?es = "[OfferSettled 0 (Inr ''v=0''), LocalSettled 0 (Inr (Some ''v=0''))]"
  let ?r = "\<lparr>ok = True, statusText = ''OK''\<rparr>"
  have w1: "waiting 0 AwaitLocal ?s"
    by (simp add: eval_defs)
  have at: "a_url (attempts ?s ! 0) = ''http://h:1984/''" "a_stream (attempts ?s ! 0) = ''cam1''"
    by (simp_all add: eval_defs)
  have w2: "waiting 0 AwaitFetch (run ?es ?m)"
    by (simp add: eval_defs)
  have pc: "a_pc (attempts (run ?es ?m) ! 0) = 0"
    by (simp add: eval_defs)
  have e: "last ''http://h:1984'' \<noteq> CHR ''/''"
    by simp
  note t = signaling_exchange[where a = 0 and s = ?s and sdp = "Some ''v=0''"
      and rf = "Inr ?r" and rt = "Inr ''answer''" and rr = "Inr ()" and resp = ?r
      and es = ?es and p = "Some \<lparr>p_url = Some ''http://h:1984/'', p_stream = None\<rparr>"
      and oc = SyncOk and body = "''answer''" and u = "''http://h:1984''"]
  from t w1 have 1: "requests
     (run [LocalSettled 0 (Inr (Some ''v=0'')), FetchSettled 0 (Inr ?r),
           TextSettled 0 (Inr ''answer''), RemoteSettled 0 (Inr ())] ?s) =
     requests ?s @ [\<lparr>r_url = endpoint_of (a_url (attempts ?s ! 0)) @ ''/api/webrtc?src='' @
                     a_stream (attempts ?s ! 0), r_method = ''POST'', r_body = Some ''v=0''\<rparr>]"
    by blast
  have rq: "requests ?s = []"
    by (simp add: eval_defs)
  from t w2 have 2: "setRemote_arg
     (pcs (run [FetchSettled 0 (Inr ?r), TextSettled 0 (Inr ''answer'')] (run ?es ?m)) !
        a_pc (attempts (run ?es ?m) ! 0)) = Some ''answer''"
    by simp
  from t e have 3: "endpoint_of ''http://h:1984'' = ''http://h:1984''"
    by blast
  have 4: "endpoint_of ''http://h:1984/'' = ''http://h:1984''"
    using t by (simp add: endpoint_of_def)
  show ?thesis
    using w1 w2 e 3 2[unfolded pc] 1[unfolded at rq 4] by simp
qed

subsection \<open>Failures of a connection attempt\<close>

text \<open>
  C3. Every exception raised in the connection sequence is caught by the
  \<^verbatim>\<open>catch\<close> block of \<open>setupWebRTC\<close>. Whether the constructor or one of the two
  transceiver calls throws (on a run of the effect, or on the first render), or the
  platform rejects the offer, the commit of the local description, the request, the
  read of the response body or the commit of the remote description, or the response
  is not a success, the handler of the event returns the state the \<^verbatim>\<open>catch\<close>
  block produces. That block records the message of the exception as the displayed
  error, sets the status to the error text and calls the reconnect scheduler on the
  state so obtained; afterwards a timer is pending, and the status is the retry text
  of the scheduler when it armed the timer, the error text when one was armed already.
  No handler has an exceptional result: a throw exists only as a \<open>Thrown\<close>
  completion of the \<^verbatim>\<open>try\<close> block, and \<open>try_catch\<close> turns each into a state.
\<close>

theorem exceptions_caught:
  "(waiting a AwaitOffer s \<longrightarrow>
      step (OfferSettled a (Inl e)) s = catch_block e (set_phase a Finished s)) \<and>
   (waiting a AwaitLocal s \<longrightarrow>
      step (LocalSettled a (Inl e)) s = catch_block e (set_phase a Finished s)) \<and>
   (waiting a AwaitFetch s \<longrightarrow>
      step (FetchSettled a (Inl e)) s = catch_block e (set_phase a Finished s)) \<and>
   (waiting a AwaitFetch s \<and> \<not> ok resp \<longrightarrow>
      step (FetchSettled a (Inr resp)) s =
        catch_block (JsError (''Failed to connect to go2rtc: '' @ statusText resp))
          (set_phase a Finished s)) \<and>
   (waiting a AwaitText s \<longrightarrow>
      step (TextSettled a (Inl e)) s = catch_block e (set_phase a Finished s)) \<and>
   (waiting a AwaitRemote s \<longrightarrow>
      step (RemoteSettled a (Inl e)) s = catch_block e (set_phase a Finished s)) \<and>
   (mounted s \<and> effectDeps s \<noteq> Some (deps s) \<and> url (config s) \<noteq> [] \<and> stream (config s) \<noteq> [] \<and>
    (oc = CtorThrows e \<or> oc = VideoThrows e \<or> oc = AudioThrows e) \<longrightarrow>
      (\<exists>m. step (Render oc) s = catch_block e m)) \<and>
   (url (spread DEFAULT_CONFIG p) \<noteq> [] \<and> stream (spread DEFAULT_CONFIG p) \<noteq> [] \<and>
    (oc = CtorThrows e \<or> oc = VideoThrows e \<or> oc = AudioThrows e) \<longrightarrow>
      (\<exists>m. mount p oc = catch_block e m)) \<and>
   catch_block e m = triggerReconnect (m\<lparr>error := Some (message_of e), status := ''Error''\<rparr>) \<and>
   error (catch_block e m) = Some (message_of e) \<and>
   reconnectTimeoutRef (catch_block e m) \<noteq> None \<and>
   status (catch_block e m) =
     (if reconnectTimeoutRef m = None then ''Retrying in 2s...'' else ''Error'') \<and>
   message_of (JsError msg) = msg"
proof -
  have settle:
    "waiting a AwaitOffer s \<longrightarrow>
       step (OfferSettled a (Inl e)) s = catch_block e (set_phase a Finished s)"
    "waiting a AwaitLocal s \<longrightarrow>
       step (LocalSettled a (Inl e)) s = catch_block e (set_phase a Finished s)"
    "waiting a AwaitFetch s \<longrightarrow>
       step (FetchSettled a (Inl e)) s = catch_block e (set_phase a Finished s)"
    "waiting a AwaitFetch s \<and> \<not> ok resp \<longrightarrow>
       step (FetchSettled a (Inr resp)) s =
         catch_block (JsError (''Failed to connect to go2rtc: '' @ statusText resp))
           (set_phase a Finished s)"
    "waiting a AwaitText s \<longrightarrow>
       step (TextSettled a (Inl e)) s = catch_block e (set_phase a Finished s)"
    "waiting a AwaitRemote s \<longrightarrow>
       step (RemoteSettled a (Inl e)) s = catch_block e (set_phase a Finished s)"
    by (simp_all add: after_offer_def after_local_def after_fetch_def after_text_def
        after_remote_def)
  have rend: "mounted s \<and> effectDeps s \<noteq> Some (deps s) \<and> url (config s) \<noteq> [] \<and>
      stream (config s) \<noteq> [] \<and>
      (oc = CtorThrows e \<or> oc = VideoThrows e \<or> oc = AudioThrows e) \<longrightarrow>
      (\<exists>m. step (Render oc) s = catch_block e m)"
  proof (intro impI, elim conjE)
    assume h: "mounted s" "effectDeps s \<noteq> Some (deps s)" "url (config s) \<noteq> []"
      "stream (config s) \<noteq> []" "oc = CtorThrows e \<or> oc = VideoThrows e \<or> oc = AudioThrows e"
    have "\<exists>m. setupWebRTC oc ((cleanup s)\<lparr>effectDeps := Some (deps s)\<rparr>) = catch_block e m"
      by (rule setupWebRTC_throws) (simp_all add: h)
    with h(1,2) show "\<exists>m. step (Render oc) s = catch_block e m"
      by (simp add: render_def run_effect_def)
  qed
  have mnt: "url (spread DEFAULT_CONFIG p) \<noteq> [] \<and> stream (spread DEFAULT_CONFIG p) \<noteq> [] \<and>
      (oc = CtorThrows e \<or> oc = VideoThrows e \<or> oc = AudioThrows e) \<longrightarrow>
      (\<exists>m. mount p oc = catch_block e m)"
  proof (intro impI, elim conjE)
    assume h: "url (spread DEFAULT_CONFIG p) \<noteq> []" "stream (spread DEFAULT_CONFIG p) \<noteq> []"
      "oc = CtorThrows e \<or> oc = VideoThrows e \<or> oc = AudioThrows e"
    show "\<exists>m. mount p oc = catch_block e m"
      unfolding mount_def by (rule setupWebRTC_throws) (simp_all add: h)
  qed
  have cb: "catch_block e m = triggerReconnect (m\<lparr>error := Some (message_of e), status := ''Error''\<rparr>)"
    by (simp add: catch_block_def)
  have obs: "error (catch_block e m) = Some (message_of e)"
    "reconnectTimeoutRef (catch_block e m) \<noteq> None"
    "status (catch_block e m) =
       (if reconnectTimeoutRef m = None then ''Retrying in 2s...'' else ''Error'')"
    "message_of (JsError msg) = msg"
    by (simp_all add: catch_block_status)
  show ?thesis
    by (intro conjI settle rend mnt cb obs)
qed

theorem exceptions_caught_witness:
  "waiting 0 AwaitOffer (mount None SyncOk) \<and>
   error (step (OfferSettled 0 (Inl (JsError ''no codec''))) (mount None SyncOk)) =
     Some ''no codec'' \<and>
   status (step (OfferSettled 0 (Inl (JsError ''no codec''))) (mount None SyncOk)) =
     ''Retrying in 2s...'' \<and>
   reconnectTimeoutRef (step (OfferSettled 0 (Inl (JsError ''no codec''))) (mount None SyncOk)) \<noteq>
     None \<and>
   waiting 0 AwaitLocal (run [OfferSettled 0 (Inr ''v=0'')] (mount None SyncOk)) \<and>
   error (step (LocalSettled 0 (Inl (JsValue ''denied'')))
            (run [OfferSettled 0 (Inr ''v=0'')] (mount None SyncOk))) = Some ''denied'' \<and>
   waiting 0 AwaitFetch
     (run [OfferSettled 0 (Inr ''v=0''), LocalSettled 0 (Inr (Some ''v=0''))] (mount None SyncOk)) \<and>
   error (step (FetchSettled 0 (Inl (JsError ''Failed to fetch'')))
            (run [OfferSettled 0 (Inr ''v=0''), LocalSettled 0 (Inr (Some ''v=0''))]
               (mount None SyncOk))) = Some ''Failed to fetch'' \<and>
   \<not> ok \<lparr>ok = False, statusText = ''Internal Server Error''\<rparr> \<and>
   error (step (FetchSettled 0 (Inr \<lparr>ok = False, statusText = ''Internal Server Error''\<rparr>))
            (run [OfferSettled 0 (Inr ''v=0''), LocalSettled 0 (Inr (Some ''v=0''))]
               (mount None SyncOk))) =
     Some ''Failed to connect to go2rtc: Internal Server Error'' \<and>
   waiting 0 AwaitText
     (run [OfferSettled 0 (Inr ''v=0''), LocalSettled 0 (Inr (Some ''v=0'')),
           FetchSettled 0 (Inr \<lparr>ok = True, statusText = ''OK''\<rparr>)] (mount None SyncOk)) \<and>
   error (step (TextSettled 0 (Inl (JsError ''aborted'')))
            (run [OfferSettled 0 (Inr ''v=0''), LocalSettled 0 (Inr (Some ''v=0'')),
                  FetchSettled 0 (Inr \<lparr>ok = True, statusText = ''OK''\<rparr>)]
               (mount None SyncOk))) = Some ''aborted'' \<and>
   waiting 0 AwaitRemote
     (run [OfferSettled 0 (Inr ''v=0''), LocalSettled 0 (Inr (Some ''v=0'')),
           FetchSettled 0 (Inr \<lparr>ok = True, statusText = ''OK''\<rparr>),
           TextSettled 0 (Inr ''answer'')] (mount None SyncOk)) \<and>
   error (step (RemoteSettled 0 (Inl (JsError ''bad sdp'')))
            (run [OfferSettled 0 (Inr ''v=0''), LocalSettled 0 (Inr (Some ''v=0'')),
                  FetchSettled 0 (Inr \<lparr>ok = True, statusText = ''OK''\<rparr>),
                  TextSettled 0 (Inr ''answer'')]
               (mount None SyncOk))) = Some ''bad sdp'' \<and>
   mounted (step ReconnectClick (mount None SyncOk)) \<and>
   effectDeps (step ReconnectClick (mount None SyncOk)) \<noteq>
     Some (deps (step ReconnectClick (mount None SyncOk))) \<and>
   error (step (Render (CtorThrows (JsError ''no webrtc'')))
            (step ReconnectClick (mount None SyncOk))) = Some ''no webrtc'' \<and>
   url (spread DEFAULT_CONFIG None) \<noteq> [] \<and>
   stream (spread DEFAULT_CONFIG None) \<noteq> [] \<and>
   error (mount None (AudioThrows (JsError ''no audio''))) = Some ''no audio''"
proof -
  let ?m = "mount None SyncOk"
  let ?s1 = "run [OfferSettled 0 (Inr ''v=0'')] ?m"
  let ?s2 = "run [OfferSettled 0 (Inr ''v=0''), LocalSettled 0 (Inr (Some ''v=0''))] ?m"
  let ?s3 = "run [OfferSettled 0 (Inr ''v=0''), LocalSettled 0 (Inr (Some ''v=0'')),
           FetchSettled 0 (Inr \<lparr>ok = True, statusText = ''OK''\<rparr>)] ?m"
  let ?s4 = "run [OfferSettled 0 (Inr ''v=0''), LocalSettled 0 (Inr (Some ''v=0'')),
           FetchSettled 0 (Inr \<lparr>ok = True, statusText = ''OK''\<rparr>),
           TextSettled 0 (Inr ''answer'')] ?m"
  let ?c = "step ReconnectClick ?m"
  let ?r = "\<lparr>ok = False, statusText = ''Internal Server Error''\<rparr>"
  have w: "waiting 0 AwaitOffer ?m" "waiting 0 AwaitLocal ?s1" "waiting 0 AwaitFetch ?s2"
    "waiting 0 AwaitText ?s3" "waiting 0 AwaitRemote ?s4"
    by (simp_all add: eval_defs)
  have c: "mounted ?c" "effectDeps ?c \<noteq> Some (deps ?c)" "url (config ?c) \<noteq> []"
    "stream (config ?c) \<noteq> []"
    by (simp_all add: eval_defs)
  have d: "url (spread DEFAULT_CONFIG None) \<noteq> []" "stream (spread DEFAULT_CONFIG None) \<noteq> []"
    by (simp_all add: spread_def DEFAULT_CONFIG_def)
  have idle: "reconnectTimeoutRef (set_phase 0 Finished ?m) = None"
    by (simp add: eval_defs)
  have k: "\<not> ok ?r" "statusText ?r = ''Internal Server Error''"
    by simp_all
  have E: "error (catch_block x mm) = Some (message_of x)" for x mm
    using exceptions_caught[where e = x and m = mm] by blast
  have S: "status (catch_block x mm) =
      (if reconnectTimeoutRef mm = None then ''Retrying in 2s...'' else ''Error'')" for x mm
    using exceptions_caught[where e = x and m = mm] by blast
  have T: "reconnectTimeoutRef (catch_block x mm) \<noteq> None" for x mm
    using exceptions_caught[where e = x and m = mm] by blast
  have 1: "step (OfferSettled 0 (Inl (JsError ''no codec''))) ?m =
      catch_block (JsError ''no codec'') (set_phase 0 Finished ?m)"
    using exceptions_caught[where a = 0 and s = ?m and e = "JsError ''no codec''"] w(1) by blast
  have 2: "step (LocalSettled 0 (Inl (JsValue ''denied''))) ?s1 =
      catch_block (JsValue ''denied'') (set_phase 0 Finished ?s1)"
    using exceptions_caught[where a = 0 and s = ?s1 and e = "JsValue ''denied''"] w(2) by blast
  have 3: "step (FetchSettled 0 (Inl (JsError ''Failed to fetch''))) ?s2 =
      catch_block (JsError ''Failed to fetch'') (set_phase 0 Finished ?s2)"
    using exceptions_caught[where a = 0 and s = ?s2 and e = "JsError ''Failed to fetch''"] w(3)
    by blast
  have 4: "step (FetchSettled 0 (Inr ?r)) ?s2 =
      catch_block (JsError (''Failed to connect to go2rtc: '' @ statusText ?r))
        (set_phase 0 Finished ?s2)"
    using exceptions_caught[where a = 0 and s = ?s2 and resp = ?r] w(3) k(1) by blast
  have 5: "step (TextSettled 0 (Inl (JsError ''aborted''))) ?s3 =
      catch_block (JsError ''aborted'') (set_phase 0 Finished ?s3)"
    using exceptions_caught[where a = 0 and s = ?s3 and e = "JsError ''aborted''"] w(4) by blast
  have 6: "step (RemoteSettled 0 (Inl (JsError ''bad sdp''))) ?s4 =
      catch_block (JsError ''bad sdp'') (set_phase 0 Finished ?s4)"
    using exceptions_caught[where a = 0 and s = ?s4 and e = "JsError ''bad sdp''"] w(5) by blast
  have 7: "\<exists>mm. step (Render (CtorThrows (JsError ''no webrtc''))) ?c =
      catch_block (JsError ''no webrtc'') mm"
    using exceptions_caught[where s = ?c and e = "JsError ''no webrtc''"
        and oc = "CtorThrows (JsError ''no webrtc'')"] c by blast
  have 8: "\<exists>mm. mount None (AudioThrows (JsError ''no audio'')) =
      catch_block (JsError ''no audio'') mm"
    using exceptions_caught[where p = None and e = "JsError ''no audio''"
        and oc = "AudioThrows (JsError ''no audio'')"] d by blast
  have r7: "error (step (Render (CtorThrows (JsError ''no webrtc''))) ?c) = Some ''no webrtc''"
    using 7 E by auto
  have r8: "error (mount None (AudioThrows (JsError ''no audio''))) = Some ''no audio''"
    using 8 E by auto
  have r1: "error (step (OfferSettled 0 (Inl (JsError ''no codec''))) ?m) = Some ''no codec''"
    "status (step (OfferSettled 0 (Inl (JsError ''no codec''))) ?m) = ''Retrying in 2s...''"
    "reconnectTimeoutRef (step (OfferSettled 0 (Inl (JsError ''no codec''))) ?m) \<noteq> None"
    unfolding 1 using idle by (simp_all add: E S T)
  have r2: "error (step (LocalSettled 0 (Inl (JsValue ''denied''))) ?s1) = Some ''denied''"
    unfolding 2 by (simp only: E message_of.simps)
  have r3: "error (step (FetchSettled 0 (Inl (JsError ''Failed to fetch''))) ?s2) =
      Some ''Failed to fetch''"
    unfolding 3 by (simp only: E message_of.simps)
  have r4: "error (step (FetchSettled 0 (Inr ?r)) ?s2) =
      Some ''Failed to connect to go2rtc: Internal Server Error''"
    unfolding 4 by (simp add: E)
  have r5: "error (step (TextSettled 0 (Inl (JsError ''aborted''))) ?s3) = Some ''aborted''"
    unfolding 5 by (simp only: E message_of.simps)
  have r6: "error (step (RemoteSettled 0 (Inl (JsError ''bad sdp''))) ?s4) = Some ''bad sdp''"
    unfolding 6 by (simp only: E message_of.simps)
  show ?thesis
    by (intro conjI w c(1,2) d k(1) r1 r2 r3 r4 r5 r6 r7 r8)
qed

subsection \<open>A successful negotiation\<close>

text \<open>
  C1, as stated, fails. The claim says that after a successful negotiation exactly
  one stream is attached to the render sink, the first stream of the first track
  event. The handler of track events stores the first stream of every track event,
  replacing what the sink held. Below, a negotiation succeeds while the connection
  delivers two track events, the first with stream 1 and the second with stream 2: the
  status ends as the connected text and the sink holds stream 2. In the second run the
  negotiation succeeds and no track event arrives: the sink holds no stream.
\<close>

theorem first_stream_counterexample:
  "status (run [OfferSettled 0 (Inr ''offer''), LocalSettled 0 (Inr (Some ''offer'')),
                FetchSettled 0 (Inr \<lparr>ok = True, statusText = ''OK''\<rparr>),
                TextSettled 0 (Inr ''answer''), Track 0 [1], Track 0 [2],
                RemoteSettled 0 (Inr ())] (mount None SyncOk)) = ''Connected'' \<and>
   attached (run [OfferSettled 0 (Inr ''offer''), LocalSettled 0 (Inr (Some ''offer'')),
                  FetchSettled 0 (Inr \<lparr>ok = True, statusText = ''OK''\<rparr>),
                  TextSettled 0 (Inr ''answer''), Track 0 [1], Track 0 [2],
                  RemoteSettled 0 (Inr ())] (mount None SyncOk)) = Some 2 \<and>
   status (run [OfferSettled 0 (Inr ''offer''), LocalSettled 0 (Inr (Some ''offer'')),
                FetchSettled 0 (Inr \<lparr>ok = True, statusText = ''OK''\<rparr>),
                TextSettled 0 (Inr ''answer''),
                RemoteSettled 0 (Inr ())] (mount None SyncOk)) = ''Connected'' \<and>
   attached (run [OfferSettled 0 (Inr ''offer''), LocalSettled 0 (Inr (Some ''offer'')),
                  FetchSettled 0 (Inr \<lparr>ok = True, statusText = ''OK''\<rparr>),
                  TextSettled 0 (Inr ''answer''),
                  RemoteSettled 0 (Inr ())] (mount None SyncOk)) = None"
  by (simp add: eval_defs)

text \<open>
  C1, amended. When the offer is generated, the local description committed, the
  response a success, its body read and the answer committed, the status the attempt
  leaves is the connected text; indeed the continuation that follows the commit of the
  answer always ends by setting it. The sink holds one stream at a time, the one stored
  last: a track event of an existing connection that carries a stream, while the video
  element is mounted, makes the sink hold the first stream of that event, and every
  event other than a track event or the unmount leaves the sink's stream as it was;
  nothing clears the sink. So after any sequence of events that keeps the element
  mounted, the sink holds the first stream of the most recent track event, of whichever
  connection, and what it held before when there was none; counted from the first
  render, it holds no stream as long as no track event has arrived.
\<close>

theorem negotiation_success:
  "(waiting a AwaitOffer s \<and> ok resp \<longrightarrow>
      status (run [OfferSettled a (Inr offer), LocalSettled a (Inr sdp),
                   FetchSettled a (Inr resp), TextSettled a (Inr answer),
                   RemoteSettled a (Inr u)] s) = ''Connected'') \<and>
   (waiting a AwaitRemote s \<longrightarrow> status (step (RemoteSettled a (Inr u)) s) = ''Connected'') \<and>
   (k < length (pcs s) \<and> videoRef s \<noteq> None \<longrightarrow>
      attached (step (Track k (x # xs)) s) = Some x) \<and>
   (case e of Track j ss \<Rightarrow> True | Unmount \<Rightarrow> True | _ \<Rightarrow> attached (step e s) = attached s) \<and>
   (videoRef s \<noteq> None \<and> delivered es s \<longrightarrow> attached (run es s) = shown es (attached s)) \<and>
   (delivered es (mount p oc) \<longrightarrow> attached (run es (mount p oc)) = shown es None) \<and>
   (list_all (\<lambda>e. \<not> is_track e) es \<longrightarrow> shown es cur = cur) \<and>
   (list_all (\<lambda>e. \<not> is_track e) es' \<longrightarrow> shown (es @ Track k (x # xs) # es') cur = Some x)"
proof -
  have "waiting a AwaitRemote s \<longrightarrow> status (step (RemoteSettled a (Inr u)) s) = ''Connected''"
    by (simp add: after_remote_def)
  moreover have "k < length (pcs s) \<and> videoRef s \<noteq> None \<longrightarrow>
      attached (step (Track k (x # xs)) s) = Some x"
    by (simp add: attached_ontrack)
  moreover have "delivered es (mount p oc) \<longrightarrow> attached (run es (mount p oc)) = shown es None"
    using shown_run[of "mount p oc" es] attached_mount[of p oc] by simp
  moreover have "list_all (\<lambda>e. \<not> is_track e) es \<longrightarrow> shown es cur = cur"
    by (simp add: shown_no_track)
  moreover have "list_all (\<lambda>e. \<not> is_track e) es' \<longrightarrow>
      shown (es @ Track k (x # xs) # es') cur = Some x"
    by (simp add: shown_append shown_no_track)
  ultimately show ?thesis
    using success_run[of a s resp offer sdp answer u] attached_step[of e s] shown_run[of s es]
    by blast
qed

theorem negotiation_success_witness:
  "waiting 0 AwaitOffer (mount None SyncOk) \<and>
   ok \<lparr>ok = True, statusText = ''OK''\<rparr> \<and>
   status (run [OfferSettled 0 (Inr ''offer''), LocalSettled 0 (Inr (Some ''offer'')),
                FetchSettled 0 (Inr \<lparr>ok = True, statusText = ''OK''\<rparr>),
                TextSettled 0 (Inr ''answer''),
                RemoteSettled 0 (Inr ())] (mount None SyncOk)) = ''Connected'' \<and>
   waiting 0 AwaitRemote
     (run [OfferSettled 0 (Inr ''offer''), LocalSettled 0 (Inr (Some ''offer'')),
           FetchSettled 0 (Inr \<lparr>ok = True, statusText = ''OK''\<rparr>),
           TextSettled 0 (Inr ''answer''), StateChange 0 ''checking'' ''connecting'']
        (mount None SyncOk)) \<and>
   status (step (RemoteSettled 0 (Inr ()))
     (run [OfferSettled 0 (Inr ''offer''), LocalSettled 0 (Inr (Some ''offer'')),
           FetchSettled 0 (Inr \<lparr>ok = True, statusText = ''OK''\<rparr>),
           TextSettled 0 (Inr ''answer''), StateChange 0 ''checking'' ''connecting'']
        (mount None SyncOk))) = ''Connected'' \<and>
   0 < length (pcs (mount None SyncOk)) \<and>
   videoRef (mount None SyncOk) \<noteq> None \<and>
   attached (step (Track 0 [7, 8]) (mount None SyncOk)) = Some 7 \<and>
   attached (step (StateChange 0 ''connected'' ''connected'')
               (step (Track 0 [7, 8]) (mount None SyncOk))) = Some 7 \<and>
   videoRef (step (Track 0 [7, 8]) (mount None SyncOk)) \<noteq> None \<and>
   delivered [StateChange 0 ''connected'' ''connected'', Track 0 [9]]
     (step (Track 0 [7, 8]) (mount None SyncOk)) \<and>
   attached (run [StateChange 0 ''connected'' ''connected'', Track 0 [9]]
     (step (Track 0 [7, 8]) (mount None SyncOk))) = Some 9 \<and>
   delivered [Track 0 [1], ReconnectClick, Render SyncOk, OfferSettled 1 (Inr ''offer''),
              LocalSettled 1 (Inr (Some ''offer'')),
              FetchSettled 1 (Inr \<lparr>ok = True, statusText = ''OK''\<rparr>),
              TextSettled 1 (Inr ''answer''), RemoteSettled 1 (Inr ())] (mount None SyncOk) \<and>
   attached (run [Track 0 [1], ReconnectClick, Render SyncOk, OfferSettled 1 (Inr ''offer''),
              LocalSettled 1 (Inr (Some ''offer'')),
              FetchSettled 1 (Inr \<lparr>ok = True, statusText = ''OK''\<rparr>),
              TextSettled 1 (Inr ''answer''), RemoteSettled 1 (Inr ())] (mount None SyncOk)) =
     Some 1 \<and>
   status (run [Track 0 [1], ReconnectClick, Render SyncOk, OfferSettled 1 (Inr ''offer''),
              LocalSettled 1 (Inr (Some ''offer'')),
              FetchSettled 1 (Inr \<lparr>ok = True, statusText = ''OK''\<rparr>),
              TextSettled 1 (Inr ''answer''), RemoteSettled 1 (Inr ())] (mount None SyncOk)) =
     ''Connected'' \<and>
   list_all (\<lambda>e. \<not> is_track e) [ReconnectClick, Render SyncOk] \<and>
   shown [ReconnectClick, Render SyncOk] (Some 4) = Some 4 \<and>
   shown ([Track 0 [5]] @ Track 1 [1, 2] # [ReconnectClick, Render SyncOk]) None = Some 1"
proof -
  let ?m = "mount None SyncOk"
  let ?r = "\<lparr>ok = True, statusText = ''OK''\<rparr>"
  let ?t = "step (Track 0 [7, 8]) ?m"
  let ?q = "run [OfferSettled 0 (Inr ''offer''), LocalSettled 0 (Inr (Some ''offer'')),
           FetchSettled 0 (Inr ?r), TextSettled 0 (Inr ''answer''),
           StateChange 0 ''checking'' ''connecting''] ?m"
  let ?e1 = "[StateChange 0 ''connected'' ''connected'', Track 0 [9]]"
  let ?pre = "[Track 0 [1], ReconnectClick, Render SyncOk]"
  let ?neg = "[OfferSettled 1 (Inr ''offer''), LocalSettled 1 (Inr (Some ''offer'')),
              FetchSettled 1 (Inr ?r), TextSettled 1 (Inr ''answer''), RemoteSettled 1 (Inr ())]"
  have run_append: "run (xs @ ys) s = run ys (run xs s)" for xs ys s
    by (induction xs arbitrary: s) simp_all
  have w: "waiting 0 AwaitOffer ?m" "ok ?r" "0 < length (pcs ?m)" "videoRef ?m \<noteq> None"
    by (simp_all add: eval_defs)
  have w': "0 < length (pcs ?t)" "videoRef ?t \<noteq> None" "delivered ?e1 ?t"
    by (simp_all add: eval_defs)
  have q: "waiting 0 AwaitRemote ?q"
    by (simp add: eval_defs)
  have n: "waiting 1 AwaitOffer (run ?pre ?m)"
    by (simp add: eval_defs)
  have d: "delivered (?pre @ ?neg) ?m"
    by (simp add: eval_defs)
  from negotiation_success[where a = 0 and s = ?m and resp = ?r and offer = "''offer''"
      and sdp = "Some ''offer''" and answer = "''answer''" and u = "()" and k = 0
      and x = 7 and xs = "[8]"] w
  have 1: "status (run [OfferSettled 0 (Inr ''offer''), LocalSettled 0 (Inr (Some ''offer'')),
                FetchSettled 0 (Inr ?r), TextSettled 0 (Inr ''answer''),
                RemoteSettled 0 (Inr ())] ?m) = ''Connected''"
    and 2: "attached ?t = Some 7"
    by simp_all
  from negotiation_success[where s = ?t and es = ?e1
      and e = "StateChange 0 ''connected'' ''connected''"] w'
  have 3: "attached (run ?e1 ?t) = shown ?e1 (attached ?t)"
    and 4: "attached (step (StateChange 0 ''connected'' ''connected'') ?t) = attached ?t"
    by simp_all
  from negotiation_success[where a = 0 and s = ?q and u = "()"] q
  have 5: "status (step (RemoteSettled 0 (Inr ())) ?q) = ''Connected''"
    by blast
  from negotiation_success[where es = "?pre @ ?neg" and p = None and oc = SyncOk] d
  have 6: "attached (run (?pre @ ?neg) ?m) = shown (?pre @ ?neg) None"
    by blast
  from negotiation_success[where a = 1 and s = "run ?pre ?m" and resp = ?r
      and offer = "''offer''" and sdp = "Some ''offer''" and answer = "''answer''" and u = "()"]
    n w(2)
  have 7: "status (run ?neg (run ?pre ?m)) = ''Connected''"
    by blast
  have 8: "status (run (?pre @ ?neg) ?m) = ''Connected''"
    using 7 by (simp only: run_append)
  from 4 2 have f4: "attached (step (StateChange 0 ''connected'' ''connected'') ?t) = Some 7"
    by simp
  from 3 have f3: "attached (run ?e1 ?t) = Some 9"
    by simp
  from 6 have f6: "attached (run (?pre @ ?neg) ?m) = Some 1"
    by simp
  have nt: "list_all (\<lambda>e. \<not> is_track e) [ReconnectClick, Render SyncOk]"
    by simp
  note tl = negotiation_success[THEN conjunct2, THEN conjunct2, THEN conjunct2,
      THEN conjunct2, THEN conjunct2, THEN conjunct2]
  have 9: "shown [ReconnectClick, Render SyncOk] (Some 4) = Some 4"
    by (rule tl[THEN conjunct1, THEN mp, OF nt])
  have 10: "shown ([Track 0 [5]] @ Track 1 [1, 2] # [ReconnectClick, Render SyncOk]) None = Some 1"
    by (rule tl[THEN conjunct2, THEN mp, OF nt])
  have app: "?pre @ ?neg =
      [Track 0 [1], ReconnectClick, Render SyncOk, OfferSettled 1 (Inr ''offer''),
       LocalSettled 1 (Inr (Some ''offer'')), FetchSettled 1 (Inr ?r),
       TextSettled 1 (Inr ''answer''), RemoteSettled 1 (Inr ())]"
    by simp
  show ?thesis
    by (intro conjI w(1,2) 1 q 5 w(3,4) 2 f4 w'(2,3) f3 d[unfolded app] f6[unfolded app]
        8[unfolded app] nt 9 10)
qed

subsection \<open>The retry delay\<close>

text \<open>
  C5, as stated, fails. The claim says that every failure that arms a retry timer at
  time T is followed by the clearing of the armed flag and one increment of the attempt
  counter at T + 2 s, and that the new attempt begins then and never sooner. The cleanup
  of the effect cancels the timer. Below, a rejected offer arms the timer at time 0, due
  at 2000; at time 500 the Reconnect button is pressed; the effect runs again: the timer
  is cancelled and the flag cleared, the counter is 1 by the button, and a new attempt
  is in its connecting phase at time 500. At time 2000 the cancelled timer does not run:
  the counter is still 1.
\<close>

theorem retry_sooner_counterexample:
  "timers (run [OfferSettled 0 (Inl (JsError ''boom''))] (mount None SyncOk)) = [(0, 2000)] \<and>
   now (run [OfferSettled 0 (Inl (JsError ''boom''))] (mount None SyncOk)) = 0 \<and>
   now (run [OfferSettled 0 (Inl (JsError ''boom'')), Advance 500, ReconnectClick,
             Render SyncOk] (mount None SyncOk)) = 500 \<and>
   status (run [OfferSettled 0 (Inl (JsError ''boom'')), Advance 500, ReconnectClick,
                Render SyncOk] (mount None SyncOk)) = ''Connecting...'' \<and>
   map a_phase (attempts (run [OfferSettled 0 (Inl (JsError ''boom'')), Advance 500,
                ReconnectClick, Render SyncOk] (mount None SyncOk))) = [Finished, AwaitOffer] \<and>
   reconnectTimeoutRef (run [OfferSettled 0 (Inl (JsError ''boom'')), Advance 500,
                ReconnectClick, Render SyncOk] (mount None SyncOk)) = None \<and>
   reconnectCount (run [OfferSettled 0 (Inl (JsError ''boom'')), Advance 500,
                ReconnectClick, Render SyncOk] (mount None SyncOk)) = 1 \<and>
   reconnectCount (run [OfferSettled 0 (Inl (JsError ''boom'')), Advance 500,
                ReconnectClick, Render SyncOk, Advance 1500, TimerFired 0]
                (mount None SyncOk)) = 1"
  by (simp add: eval_defs)

text \<open>
  C5, amended. A failure that arms the retry timer at time T gives it the fixed delay
  of 2000 ms. While the timer is pending it does not run before T + 2000; a timer that
  is not pending does not run at all, and the cleanup of the effect (config change,
  manual reconnect, unmount) removes the timer the reference holds. When a pending
  timer runs at or after its time, the armed flag is cleared and the attempt counter is
  incremented by exactly one, the timer is gone, and the callback itself starts no
  attempt. That increment is what makes the effect run again: the next render tears
  down and enters the connecting phase at that time, whereas a render with unchanged
  dependencies does nothing.
\<close>

theorem retry_after_delay:
  "(reconnectTimeoutRef s = None \<longrightarrow>
      timers (triggerReconnect s) = timers s @ [(timerSeq s, now s + 2000)] \<and>
      reconnectTimeoutRef (triggerReconnect s) = Some (timerSeq s)) \<and>
   (map_of (timers s) t = Some d \<and> now s < d \<longrightarrow> step (TimerFired t) s = s) \<and>
   (map_of (timers s) t = None \<longrightarrow> step (TimerFired t) s = s) \<and>
   (reconnectTimeoutRef s = Some t \<longrightarrow> map_of (timers (cleanup s)) t = None) \<and>
   (map_of (timers s) t = Some d \<and> d \<le> now s \<longrightarrow>
      reconnectTimeoutRef (step (TimerFired t) s) = None \<and>
      reconnectCount (step (TimerFired t) s) = reconnectCount s + 1 \<and>
      map_of (timers (step (TimerFired t) s)) t = None \<and>
      status (step (TimerFired t) s) = status s \<and>
      attempts (step (TimerFired t) s) = attempts s) \<and>
   (map_of (timers s) t = Some d \<and> d \<le> now s \<and> mounted s \<and> effectDeps s = Some (deps s) \<and>
    url (config s) \<noteq> [] \<and> stream (config s) \<noteq> [] \<longrightarrow>
      status (run [TimerFired t, Render SyncOk] s) = ''Connecting...'' \<and>
      length (attempts (run [TimerFired t, Render SyncOk] s)) = Suc (length (attempts s)) \<and>
      now (run [TimerFired t, Render SyncOk] s) = now s) \<and>
   (effectDeps s = Some (deps s) \<longrightarrow> step (Render oc) s = s)"
proof -
  have arm: "reconnectTimeoutRef s = None \<longrightarrow>
      timers (triggerReconnect s) = timers s @ [(timerSeq s, now s + 2000)] \<and>
      reconnectTimeoutRef (triggerReconnect s) = Some (timerSeq s)"
    by (simp add: triggerReconnect_def)
  have early: "map_of (timers s) t = Some d \<and> now s < d \<longrightarrow> step (TimerFired t) s = s"
    by (simp add: fire_early)
  have absent: "map_of (timers s) t = None \<longrightarrow> step (TimerFired t) s = s"
    by (simp add: fire_absent)
  have cancel: "reconnectTimeoutRef s = Some t \<longrightarrow> map_of (timers (cleanup s)) t = None"
    by (simp add: cleanup_cancels)
  have due: "map_of (timers s) t = Some d \<and> d \<le> now s \<longrightarrow>
      reconnectTimeoutRef (step (TimerFired t) s) = None \<and>
      reconnectCount (step (TimerFired t) s) = reconnectCount s + 1 \<and>
      map_of (timers (step (TimerFired t) s)) t = None \<and>
      status (step (TimerFired t) s) = status s \<and>
      attempts (step (TimerFired t) s) = attempts s"
    by (simp add: fire_due map_of_filter_out)
  have again: "map_of (timers s) t = Some d \<and> d \<le> now s \<and> mounted s \<and>
      effectDeps s = Some (deps s) \<and> url (config s) \<noteq> [] \<and> stream (config s) \<noteq> [] \<longrightarrow>
      status (run [TimerFired t, Render SyncOk] s) = ''Connecting...'' \<and>
      length (attempts (run [TimerFired t, Render SyncOk] s)) = Suc (length (attempts s)) \<and>
      now (run [TimerFired t, Render SyncOk] s) = now s"
  proof (intro impI, elim conjE)
    assume h: "map_of (timers s) t = Some d" "d \<le> now s" "mounted s"
      "effectDeps s = Some (deps s)" "url (config s) \<noteq> []" "stream (config s) \<noteq> []"
    let ?f = "fire_timer t s"
    have f: "?f = s\<lparr>timers := filter (\<lambda>p. fst p \<noteq> t) (timers s),
       reconnectCountRef := reconnectCountRef s + 1,
       reconnectCount := reconnectCount s + 1,
       reconnectTimeoutRef := None\<rparr>"
      by (rule fire_due[OF h(1,2)])
    have c: "url (config ?f) \<noteq> []" "stream (config ?f) \<noteq> []" "mounted ?f"
      "effectDeps ?f \<noteq> Some (deps ?f)" "attempts ?f = attempts s" "now ?f = now s"
      using h by (simp_all add: f deps_def)
    have "run [TimerFired t, Render SyncOk] s = run_effect SyncOk ?f"
      using c(3,4) by (simp add: render_def)
    with run_effect_connecting[OF c(1,2)] c(5,6)
    show "status (run [TimerFired t, Render SyncOk] s) = ''Connecting...'' \<and>
      length (attempts (run [TimerFired t, Render SyncOk] s)) = Suc (length (attempts s)) \<and>
      now (run [TimerFired t, Render SyncOk] s) = now s"
      by simp
  qed
  have same: "effectDeps s = Some (deps s) \<longrightarrow> step (Render oc) s = s"
    by (simp add: render_def)
  show ?thesis
    by (intro conjI arm early absent cancel due again same)
qed

theorem retry_after_delay_witness:
  "reconnectTimeoutRef (mount None SyncOk) = None \<and>
   timers (triggerReconnect (mount None SyncOk)) = [(0, 2000)] \<and>
   map_of (timers (run [OfferSettled 0 (Inl (JsError ''boom'')), Advance 1999]
                     (mount None SyncOk))) 0 = Some 2000 \<and>
   now (run [OfferSettled 0 (Inl (JsError ''boom'')), Advance 1999] (mount None SyncOk)) < 2000 \<and>
   step (TimerFired 0)
     (run [OfferSettled 0 (Inl (JsError ''boom'')), Advance 1999] (mount None SyncOk)) =
     run [OfferSettled 0 (Inl (JsError ''boom'')), Advance 1999] (mount None SyncOk) \<and>
   map_of (timers (mount None SyncOk)) 0 = None \<and>
   step (TimerFired 0) (mount None SyncOk) = mount None SyncOk \<and>
   reconnectTimeoutRef
     (run [OfferSettled 0 (Inl (JsError ''boom'')), Advance 1999] (mount None SyncOk)) = Some 0 \<and>
   map_of (timers (cleanup
     (run [OfferSettled 0 (Inl (JsError ''boom'')), Advance 1999] (mount None SyncOk)))) 0 = None \<and>
   map_of (timers (run [OfferSettled 0 (Inl (JsError ''boom'')), Advance 2000]
                     (mount None SyncOk))) 0 = Some 2000 \<and>
   2000 \<le> now (run [OfferSettled 0 (Inl (JsError ''boom'')), Advance 2000] (mount None SyncOk)) \<and>
   reconnectCount
     (step (TimerFired 0)
        (run [OfferSettled 0 (Inl (JsError ''boom'')), Advance 2000] (mount None SyncOk))) = 1 \<and>
   status
     (run [TimerFired 0, Render SyncOk]
        (run [OfferSettled 0 (Inl (JsError ''boom'')), Advance 2000] (mount None SyncOk))) =
     ''Connecting...'' \<and>
   effectDeps (mount None SyncOk) = Some (deps (mount None SyncOk)) \<and>
   step (Render SyncOk) (mount None SyncOk) = mount None SyncOk"
proof -
  let ?m = "mount None SyncOk"
  let ?a = "run [OfferSettled 0 (Inl (JsError ''boom'')), Advance 1999] ?m"
  let ?b = "run [OfferSettled 0 (Inl (JsError ''boom'')), Advance 2000] ?m"
  have m: "reconnectTimeoutRef ?m = None" "timers ?m = []" "timerSeq ?m = 0" "now ?m = 0"
    by (simp_all add: eval_defs)
  have m': "map_of (timers ?m) 0 = None" "effectDeps ?m = Some (deps ?m)"
    by (simp_all add: eval_defs)
  have a: "map_of (timers ?a) 0 = Some 2000" "now ?a < 2000" "reconnectTimeoutRef ?a = Some 0"
    by (simp_all add: eval_defs)
  have b: "map_of (timers ?b) 0 = Some 2000" "2000 \<le> now ?b" "mounted ?b"
    "effectDeps ?b = Some (deps ?b)" "url (config ?b) \<noteq> []" "stream (config ?b) \<noteq> []"
    "reconnectCount ?b = 0"
    by (simp_all add: eval_defs)
  from retry_after_delay[where s = ?m and t = 0 and oc = SyncOk] m m'
  have 1: "timers (triggerReconnect ?m) = [(0, 2000)]"
    and 5: "step (TimerFired 0) ?m = ?m"
    and 6: "step (Render SyncOk) ?m = ?m"
    by simp_all
  from retry_after_delay[where s = ?a and t = 0 and d = 2000] a
  have 2: "step (TimerFired 0) ?a = ?a"
    and 7: "map_of (timers (cleanup ?a)) 0 = None"
    by blast+
  from retry_after_delay[where s = ?b and t = 0 and d = 2000] b
  have 3: "reconnectCount (step (TimerFired 0) ?b) = 1"
    and 4: "status (run [TimerFired 0, Render SyncOk] ?b) = ''Connecting...''"
    by simp_all
  show ?thesis
    by (intro conjI m(1) 1 a(1,2) 2 m'(1) 5 a(3) 7 b(1,2) 3 4 m'(2) 6)
qed

subsection \<open>A negotiation in flight at teardown\<close>

text \<open>
  C6, as stated, fails. The claim says that the result of a negotiation still in
  flight when teardown starts is invalidated or ignored, and drives no state
  transition. The cleanup closes the connection and clears the references, and nothing
  marks the suspended call as stale. Below, the request of the first attempt is in
  flight when the stream name is changed to \<^verbatim>\<open>cam2\<close>; the effect runs again,
  closes connection 0 and starts a second attempt on connection 1, whose status is the
  connecting text. Then the response of the first attempt arrives, a success: its body
  is handed to the closed connection 0 as remote answer. If the platform accepts the
  commit, the status becomes the connected text while the second attempt still waits
  for its offer; if the platform rejects it, the error is recorded, the status becomes
  the retry text and a retry timer is armed.
\<close>

theorem stale_answer_counterexample:
  "map pc_closed (pcs (run [OfferSettled 0 (Inr ''offer''), LocalSettled 0 (Inr (Some ''offer'')),
       SettingsAction (Update [''general'', ''stream''] ''cam2''), Render SyncOk]
       (mount None SyncOk))) = [True, False] \<and>
   status (run [OfferSettled 0 (Inr ''offer''), LocalSettled 0 (Inr (Some ''offer'')),
       SettingsAction (Update [''general'', ''stream''] ''cam2''), Render SyncOk]
       (mount None SyncOk)) = ''Connecting...'' \<and>
   status (run [OfferSettled 0 (Inr ''offer''), LocalSettled 0 (Inr (Some ''offer'')),
       SettingsAction (Update [''general'', ''stream''] ''cam2''), Render SyncOk,
       FetchSettled 0 (Inr \<lparr>ok = True, statusText = ''OK''\<rparr>), TextSettled 0 (Inr ''answer''),
       RemoteSettled 0 (Inr ())]
       (mount None SyncOk)) = ''Connected'' \<and>
   map a_phase (attempts (run [OfferSettled 0 (Inr ''offer''), LocalSettled 0 (Inr (Some ''offer'')),
       SettingsAction (Update [''general'', ''stream''] ''cam2''), Render SyncOk,
       FetchSettled 0 (Inr \<lparr>ok = True, statusText = ''OK''\<rparr>), TextSettled 0 (Inr ''answer''),
       RemoteSettled 0 (Inr ())]
       (mount None SyncOk))) = [Finished, AwaitOffer] \<and>
   map setRemote_arg (pcs (run [OfferSettled 0 (Inr ''offer''), LocalSettled 0 (Inr (Some ''offer'')),
       SettingsAction (Update [''general'', ''stream''] ''cam2''), Render SyncOk,
       FetchSettled 0 (Inr \<lparr>ok = True, statusText = ''OK''\<rparr>), TextSettled 0 (Inr ''answer'')]
       (mount None SyncOk))) = [Some ''answer'', None] \<and>
   status (run [OfferSettled 0 (Inr ''offer''), LocalSettled 0 (Inr (Some ''offer'')),
       SettingsAction (Update [''general'', ''stream''] ''cam2''), Render SyncOk,
       FetchSettled 0 (Inr \<lparr>ok = True, statusText = ''OK''\<rparr>), TextSettled 0 (Inr ''answer''),
       RemoteSettled 0 (Inl (JsError ''InvalidStateError''))]
       (mount None SyncOk)) = ''Retrying in 2s...'' \<and>
   error (run [OfferSettled 0 (Inr ''offer''), LocalSettled 0 (Inr (Some ''offer'')),
       SettingsAction (Update [''general'', ''stream''] ''cam2''), Render SyncOk,
       FetchSettled 0 (Inr \<lparr>ok = True, statusText = ''OK''\<rparr>), TextSettled 0 (Inr ''answer''),
       RemoteSettled 0 (Inl (JsError ''InvalidStateError''))]
       (mount None SyncOk)) = Some ''InvalidStateError'' \<and>
   timers (run [OfferSettled 0 (Inr ''offer''), LocalSettled 0 (Inr (Some ''offer'')),
       SettingsAction (Update [''general'', ''stream''] ''cam2''), Render SyncOk,
       FetchSettled 0 (Inr \<lparr>ok = True, statusText = ''OK''\<rparr>), TextSettled 0 (Inr ''answer''),
       RemoteSettled 0 (Inl (JsError ''InvalidStateError''))]
       (mount None SyncOk)) = [(0, 2000)]"
  by (simp add: eval_defs)

text \<open>
  C6, amended. Teardown closes the held connection and clears both references, and
  leaves every suspended call of \<open>setupWebRTC\<close> where it waits, also when the
  effect goes on to start a new attempt; a result that arrives afterwards is processed
  as any other, in whatever state the panel is by then. Processing a settlement never
  assigns the connection reference and never reopens a connection: closed connections
  stay closed. It does drive the status: a late commit of the answer sets the
  connected text and arms nothing; a late rejection or a late non-success response
  records the error and sets the error text, and the reconnect scheduler then arms a
  timer and sets the retry text when no timer is armed, and leaves the error text and
  the armed timer when one is; and a late response body is handed to the captured
  connection as remote answer.
\<close>

theorem stale_result_processed:
  "waiting a ph (cleanup s) = waiting a ph s \<and>
   (a < length (attempts s) \<longrightarrow> waiting a ph (run_effect oc s) = waiting a ph s) \<and>
   (settlement e \<longrightarrow>
      pcRef (step e s) = pcRef s \<and> map pc_closed (pcs (step e s)) = map pc_closed (pcs s)) \<and>
   (waiting a AwaitRemote s \<longrightarrow>
      status (step (RemoteSettled a (Inr u)) s) = ''Connected'' \<and>
      timers (step (RemoteSettled a (Inr u)) s) = timers s) \<and>
   (waiting a AwaitRemote s \<longrightarrow>
      error (step (RemoteSettled a (Inl x)) s) = Some (message_of x) \<and>
      status (step (RemoteSettled a (Inl x)) s) =
        (if reconnectTimeoutRef s = None then ''Retrying in 2s...'' else ''Error'') \<and>
      timers (step (RemoteSettled a (Inl x)) s) =
        (if reconnectTimeoutRef s = None then timers s @ [(timerSeq s, now s + 2000)]
         else timers s) \<and>
      reconnectTimeoutRef (step (RemoteSettled a (Inl x)) s) \<noteq> None) \<and>
   (waiting a AwaitFetch s \<and> \<not> ok resp \<longrightarrow>
      error (step (FetchSettled a (Inr resp)) s) =
        Some (''Failed to connect to go2rtc: '' @ statusText resp) \<and>
      status (step (FetchSettled a (Inr resp)) s) =
        (if reconnectTimeoutRef s = None then ''Retrying in 2s...'' else ''Error'') \<and>
      timers (step (FetchSettled a (Inr resp)) s) =
        (if reconnectTimeoutRef s = None then timers s @ [(timerSeq s, now s + 2000)]
         else timers s) \<and>
      reconnectTimeoutRef (step (FetchSettled a (Inr resp)) s) \<noteq> None) \<and>
   (waiting a AwaitText (run es (mount p oc)) \<longrightarrow>
      setRemote_arg
        (pcs (step (TextSettled a (Inr answer)) (run es (mount p oc))) !
           a_pc (attempts (run es (mount p oc)) ! a)) = Some answer)"
proof -
  have keep: "waiting a ph (cleanup s) = waiting a ph s"
    by simp
  have again: "a < length (attempts s) \<longrightarrow> waiting a ph (run_effect oc s) = waiting a ph s"
    by (simp add: waiting_run_effect)
  have sess: "settlement e \<longrightarrow>
      pcRef (step e s) = pcRef s \<and> map pc_closed (pcs (step e s)) = map pc_closed (pcs s)"
    using settlement_session[of e s] by blast
  have good: "waiting a AwaitRemote s \<longrightarrow>
      status (step (RemoteSettled a (Inr u)) s) = ''Connected'' \<and>
      timers (step (RemoteSettled a (Inr u)) s) = timers s"
    by (simp add: after_remote_def)
  have bad: "waiting a AwaitRemote s \<longrightarrow>
      error (step (RemoteSettled a (Inl x)) s) = Some (message_of x) \<and>
      status (step (RemoteSettled a (Inl x)) s) =
        (if reconnectTimeoutRef s = None then ''Retrying in 2s...'' else ''Error'') \<and>
      timers (step (RemoteSettled a (Inl x)) s) =
        (if reconnectTimeoutRef s = None then timers s @ [(timerSeq s, now s + 2000)]
         else timers s) \<and>
      reconnectTimeoutRef (step (RemoteSettled a (Inl x)) s) \<noteq> None"
    by (simp add: after_remote_def catch_block_status catch_block_timers)
  have resp: "waiting a AwaitFetch s \<and> \<not> ok resp \<longrightarrow>
      error (step (FetchSettled a (Inr resp)) s) =
        Some (''Failed to connect to go2rtc: '' @ statusText resp) \<and>
      status (step (FetchSettled a (Inr resp)) s) =
        (if reconnectTimeoutRef s = None then ''Retrying in 2s...'' else ''Error'') \<and>
      timers (step (FetchSettled a (Inr resp)) s) =
        (if reconnectTimeoutRef s = None then timers s @ [(timerSeq s, now s + 2000)]
         else timers s) \<and>
      reconnectTimeoutRef (step (FetchSettled a (Inr resp)) s) \<noteq> None"
    by (simp add: after_fetch_def catch_block_status catch_block_timers)
  have ans: "waiting a AwaitText (run es (mount p oc)) \<longrightarrow>
      setRemote_arg
        (pcs (step (TextSettled a (Inr answer)) (run es (mount p oc))) !
           a_pc (attempts (run es (mount p oc)) ! a)) = Some answer"
  proof
    let ?s = "run es (mount p oc)"
    assume w: "waiting a AwaitText ?s"
    then have a: "a < length (attempts ?s)" by (simp add: waiting_def)
    have v: "a_pc (attempts ?s ! a) < length (pcs ?s)"
      by (rule attempt_pc_valid[OF handles_inv_reachable a])
    show "setRemote_arg
        (pcs (step (TextSettled a (Inr answer)) ?s) ! a_pc (attempts ?s ! a)) = Some answer"
      using w v by (simp add: after_text_def)
  qed
  show ?thesis
    by (intro conjI keep again sess good bad resp ans)
qed

theorem stale_result_processed_witness:
  "0 < length (attempts (run [OfferSettled 0 (Inr ''offer''), LocalSettled 0 (Inr (Some ''offer''))]
        (mount None SyncOk))) \<and>
   waiting 0 AwaitFetch
     (run_effect SyncOk
        (run [OfferSettled 0 (Inr ''offer''), LocalSettled 0 (Inr (Some ''offer''))]
           (mount None SyncOk))) \<and>
   waiting 0 AwaitFetch
     (run [OfferSettled 0 (Inr ''offer''), LocalSettled 0 (Inr (Some ''offer'')),
           SettingsAction (Update [''general'', ''stream''] ''cam2''), Render SyncOk]
        (mount None SyncOk)) \<and>
   \<not> ok \<lparr>ok = False, statusText = ''Bad Gateway''\<rparr> \<and>
   status (run [OfferSettled 0 (Inr ''offer''), LocalSettled 0 (Inr (Some ''offer'')),
           SettingsAction (Update [''general'', ''stream''] ''cam2''), Render SyncOk,
           FetchSettled 0 (Inr \<lparr>ok = False, statusText = ''Bad Gateway''\<rparr>)]
        (mount None SyncOk)) = ''Retrying in 2s...'' \<and>
   timers (run [OfferSettled 0 (Inr ''offer''), LocalSettled 0 (Inr (Some ''offer'')),
           SettingsAction (Update [''general'', ''stream''] ''cam2''), Render SyncOk,
           FetchSettled 0 (Inr \<lparr>ok = False, statusText = ''Bad Gateway''\<rparr>)]
        (mount None SyncOk)) = [(0, 2000)] \<and>
   waiting 0 AwaitFetch
     (run [OfferSettled 0 (Inr ''offer''), LocalSettled 0 (Inr (Some ''offer'')),
           SettingsAction (Update [''general'', ''stream''] ''cam2''), Render SyncOk,
           OfferSettled 1 (Inl (JsError ''no codec''))]
        (mount None SyncOk)) \<and>
   status (run [OfferSettled 0 (Inr ''offer''), LocalSettled 0 (Inr (Some ''offer'')),
           SettingsAction (Update [''general'', ''stream''] ''cam2''), Render SyncOk,
           OfferSettled 1 (Inl (JsError ''no codec'')),
           FetchSettled 0 (Inr \<lparr>ok = False, statusText = ''Bad Gateway''\<rparr>)]
        (mount None SyncOk)) = ''Error'' \<and>
   error (run [OfferSettled 0 (Inr ''offer''), LocalSettled 0 (Inr (Some ''offer'')),
           SettingsAction (Update [''general'', ''stream''] ''cam2''), Render SyncOk,
           OfferSettled 1 (Inl (JsError ''no codec'')),
           FetchSettled 0 (Inr \<lparr>ok = False, statusText = ''Bad Gateway''\<rparr>)]
        (mount None SyncOk)) = Some ''Failed to connect to go2rtc: Bad Gateway'' \<and>
   timers (run [OfferSettled 0 (Inr ''offer''), LocalSettled 0 (Inr (Some ''offer'')),
           SettingsAction (Update [''general'', ''stream''] ''cam2''), Render SyncOk,
           OfferSettled 1 (Inl (JsError ''no codec'')),
           FetchSettled 0 (Inr \<lparr>ok = False, statusText = ''Bad Gateway''\<rparr>)]
        (mount None SyncOk)) = [(0, 2000)] \<and>
   waiting 0 AwaitText
     (run [OfferSettled 0 (Inr ''offer''), LocalSettled 0 (Inr (Some ''offer'')),
           SettingsAction (Update [''general'', ''stream''] ''cam2''), Render SyncOk,
           FetchSettled 0 (Inr \<lparr>ok = True, statusText = ''OK''\<rparr>)] (mount None SyncOk)) \<and>
   setRemote_arg (pcs (run [OfferSettled 0 (Inr ''offer''), LocalSettled 0 (Inr (Some ''offer'')),
           SettingsAction (Update [''general'', ''stream''] ''cam2''), Render SyncOk,
           FetchSettled 0 (Inr \<lparr>ok = True, statusText = ''OK''\<rparr>),
           TextSettled 0 (Inr ''answer'')] (mount None SyncOk)) ! 0) = Some ''answer'' \<and>
   waiting 0 AwaitRemote
     (run [OfferSettled 0 (Inr ''offer''), LocalSettled 0 (Inr (Some ''offer'')),
           SettingsAction (Update [''general'', ''stream''] ''cam2''), Render SyncOk,
           FetchSettled 0 (Inr \<lparr>ok = True, statusText = ''OK''\<rparr>),
           TextSettled 0 (Inr ''answer'')] (mount None SyncOk)) \<and>
   status (run [OfferSettled 0 (Inr ''offer''), LocalSettled 0 (Inr (Some ''offer'')),
           SettingsAction (Update [''general'', ''stream''] ''cam2''), Render SyncOk,
           FetchSettled 0 (Inr \<lparr>ok = True, statusText = ''OK''\<rparr>),
           TextSettled 0 (Inr ''answer''), RemoteSettled 0 (Inr ())] (mount None SyncOk)) =
     ''Connected'' \<and>
   status (run [OfferSettled 0 (Inr ''offer''), LocalSettled 0 (Inr (Some ''offer'')),
           SettingsAction (Update [''general'', ''stream''] ''cam2''), Render SyncOk,
           FetchSettled 0 (Inr \<lparr>ok = True, statusText = ''OK''\<rparr>),
           TextSettled 0 (Inr ''answer''),
           RemoteSettled 0 (Inl (JsError ''InvalidStateError''))] (mount None SyncOk)) =
     ''Retrying in 2s...'' \<and>
   settlement (RemoteSettled 0 (Inr ())) \<and>
   pcRef (run [OfferSettled 0 (Inr ''offer''), LocalSettled 0 (Inr (Some ''offer'')),
           SettingsAction (Update [''general'', ''stream''] ''cam2''), Render SyncOk,
           FetchSettled 0 (Inr \<lparr>ok = True, statusText = ''OK''\<rparr>),
           TextSettled 0 (Inr ''answer''), RemoteSettled 0 (Inr ())] (mount None SyncOk)) =
     Some 1 \<and>
   map pc_closed (pcs (run [OfferSettled 0 (Inr ''offer''), LocalSettled 0 (Inr (Some ''offer'')),
           SettingsAction (Update [''general'', ''stream''] ''cam2''), Render SyncOk,
           FetchSettled 0 (Inr \<lparr>ok = True, statusText = ''OK''\<rparr>),
           TextSettled 0 (Inr ''answer''), RemoteSettled 0 (Inr ())] (mount None SyncOk))) =
     [True, False]"
proof -
  let ?m = "mount None SyncOk"
  let ?f = "run [OfferSettled 0 (Inr ''offer''), LocalSettled 0 (Inr (Some ''offer''))] ?m"
  let ?c = "[OfferSettled 0 (Inr ''offer''), LocalSettled 0 (Inr (Some ''offer'')),
           SettingsAction (Update [''general'', ''stream''] ''cam2''), Render SyncOk]"
  let ?g = "\<lparr>ok = True, statusText = ''OK''\<rparr>"
  let ?b = "\<lparr>ok = False, statusText = ''Bad Gateway''\<rparr>"
  let ?t = "run ?c ?m"
  let ?t1 = "run (?c @ [OfferSettled 1 (Inl (JsError ''no codec''))]) ?m"
  let ?x = "run (?c @ [FetchSettled 0 (Inr ?g)]) ?m"
  let ?r = "run (?c @ [FetchSettled 0 (Inr ?g), TextSettled 0 (Inr ''answer'')]) ?m"
  have run_snoc: "run (xs @ [e]) s = step e (run xs s)" for xs e s
    by (induction xs arbitrary: s) simp_all
  have f: "0 < length (attempts ?f)" "waiting 0 AwaitFetch ?f"
    by (simp_all add: eval_defs)
  have t: "waiting 0 AwaitFetch ?t" "reconnectTimeoutRef ?t = None" "timers ?t = []"
    "timerSeq ?t = 0" "now ?t = 0"
    by (simp_all add: eval_defs)
  have t1: "waiting 0 AwaitFetch ?t1" "reconnectTimeoutRef ?t1 \<noteq> None" "timers ?t1 = [(0, 2000)]"
    by (simp_all add: eval_defs)
  have x: "waiting 0 AwaitText ?x" "a_pc (attempts ?x ! 0) = 0"
    by (simp_all add: eval_defs)
  have r: "waiting 0 AwaitRemote ?r" "reconnectTimeoutRef ?r = None" "pcRef ?r = Some 1"
    "map pc_closed (pcs ?r) = [True, False]"
    by (simp_all add: eval_defs)
  have k: "\<not> ok ?b" "statusText ?b = ''Bad Gateway''" "settlement (RemoteSettled 0 (Inr ()))"
    by simp_all
  from stale_result_processed[where a = 0 and s = ?f and ph = AwaitFetch and oc = SyncOk] f
  have 1: "waiting 0 AwaitFetch (run_effect SyncOk ?f)"
    by blast
  from stale_result_processed[where a = 0 and s = ?t and resp = ?b] t k(1)
  have 2: "status (step (FetchSettled 0 (Inr ?b)) ?t) = ''Retrying in 2s...''"
    and 3: "timers (step (FetchSettled 0 (Inr ?b)) ?t) = [(0, 2000)]"
    by simp_all
  from stale_result_processed[where a = 0 and s = ?t1 and resp = ?b] t1 k(1)
  have 4: "status (step (FetchSettled 0 (Inr ?b)) ?t1) = ''Error''"
    and 5: "error (step (FetchSettled 0 (Inr ?b)) ?t1) =
      Some ''Failed to connect to go2rtc: Bad Gateway''"
    and 6: "timers (step (FetchSettled 0 (Inr ?b)) ?t1) = [(0, 2000)]"
    by simp_all
  from stale_result_processed[where a = 0 and es = "?c @ [FetchSettled 0 (Inr ?g)]"
      and p = None and oc = SyncOk and answer = "''answer''"] x
  have 7: "setRemote_arg (pcs (step (TextSettled 0 (Inr ''answer'')) ?x) ! 0) = Some ''answer''"
    by simp
  from stale_result_processed[where a = 0 and s = ?r and u = "()"
      and x = "JsError ''InvalidStateError''" and e = "RemoteSettled 0 (Inr ())"] r k(3)
  have 8: "status (step (RemoteSettled 0 (Inr ())) ?r) = ''Connected''"
    and 9: "status (step (RemoteSettled 0 (Inl (JsError ''InvalidStateError''))) ?r) =
      ''Retrying in 2s...''"
    and 10: "pcRef (step (RemoteSettled 0 (Inr ())) ?r) = Some 1"
    and 11: "map pc_closed (pcs (step (RemoteSettled 0 (Inr ())) ?r)) = [True, False]"
    by simp_all
  note rs = run_snoc[symmetric]
  show ?thesis
    using f(1) 1 t(1) k(1) 2 3 t1(1) 4 5 6 x(1) 7 r(1) 8 9 k(3) 10 11
    unfolding rs by simp
qed

end
